theory Spec2Isabelle
  imports Complex_Main
begin

section \<open>The schema of \<open>app/models/models.py\<close>\<close>

text \<open>
  The source file is a declarative schema: four string enumerations and four classes
  whose fields are declared with \<open>Field(...)\<close>. The embedding keeps it as data: each
  class is the list of its field declarations, in source order, with the keywords the
  source passes to \<open>Field\<close>, and the options of the class (\<open>table=True\<close>,
  \<open>validate_assignment\<close>). An object is a dictionary from field names to values.

  The four classes are table classes. The constructor of a table class assigns the
  keyword arguments and the defaults to the attributes and validates nothing by itself;
  an assignment validates the value against the declaration of the field only in a class
  whose \<open>Config\<close> sets \<open>validate_assignment\<close>.
\<close>

subsection \<open>Enumerations (classes deriving from \<open>str, Enum\<close>)\<close>

datatype BookingStatus =
  BookingStatus_PENDING | BookingStatus_CONFIRMED | BookingStatus_CANCELLED
  | BookingStatus_COMPLETED

fun BookingStatus_value :: "BookingStatus \<Rightarrow> string" where
  "BookingStatus_value BookingStatus_PENDING = ''pending''"
| "BookingStatus_value BookingStatus_CONFIRMED = ''confirmed''"
| "BookingStatus_value BookingStatus_CANCELLED = ''cancelled''"
| "BookingStatus_value BookingStatus_COMPLETED = ''completed''"

definition BookingStatus_members :: "BookingStatus list" where
  "BookingStatus_members =
     [BookingStatus_PENDING, BookingStatus_CONFIRMED, BookingStatus_CANCELLED,
      BookingStatus_COMPLETED]"

datatype OrderStatus =
  OrderStatus_PENDING | OrderStatus_CONFIRMED | OrderStatus_IN_PROGRESS | OrderStatus_READY
  | OrderStatus_COMPLETED | OrderStatus_CANCELLED | OrderStatus_REFUNDED

fun OrderStatus_value :: "OrderStatus \<Rightarrow> string" where
  "OrderStatus_value OrderStatus_PENDING = ''pending''"
| "OrderStatus_value OrderStatus_CONFIRMED = ''confirmed''"
| "OrderStatus_value OrderStatus_IN_PROGRESS = ''in_progress''"
| "OrderStatus_value OrderStatus_READY = ''ready''"
| "OrderStatus_value OrderStatus_COMPLETED = ''completed''"
| "OrderStatus_value OrderStatus_CANCELLED = ''cancelled''"
| "OrderStatus_value OrderStatus_REFUNDED = ''refunded''"

definition OrderStatus_members :: "OrderStatus list" where
  "OrderStatus_members =
     [OrderStatus_PENDING, OrderStatus_CONFIRMED, OrderStatus_IN_PROGRESS, OrderStatus_READY,
      OrderStatus_COMPLETED, OrderStatus_CANCELLED, OrderStatus_REFUNDED]"

datatype OrderType =
  OrderType_PICKUP | OrderType_DELIVERY | OrderType_DINE_IN | OrderType_ONLINE
  | OrderType_IN_STORE | OrderType_SERVICE

fun OrderType_value :: "OrderType \<Rightarrow> string" where
  "OrderType_value OrderType_PICKUP = ''pickup''"
| "OrderType_value OrderType_DELIVERY = ''delivery''"
| "OrderType_value OrderType_DINE_IN = ''dine_in''"
| "OrderType_value OrderType_ONLINE = ''online''"
| "OrderType_value OrderType_IN_STORE = ''in_store''"
| "OrderType_value OrderType_SERVICE = ''service''"

definition OrderType_members :: "OrderType list" where
  "OrderType_members =
     [OrderType_PICKUP, OrderType_DELIVERY, OrderType_DINE_IN, OrderType_ONLINE,
      OrderType_IN_STORE, OrderType_SERVICE]"

datatype PaymentStatus =
  PaymentStatus_PENDING | PaymentStatus_PAID | PaymentStatus_FAILED | PaymentStatus_REFUNDED

fun PaymentStatus_value :: "PaymentStatus \<Rightarrow> string" where
  "PaymentStatus_value PaymentStatus_PENDING = ''pending''"
| "PaymentStatus_value PaymentStatus_PAID = ''paid''"
| "PaymentStatus_value PaymentStatus_FAILED = ''failed''"
| "PaymentStatus_value PaymentStatus_REFUNDED = ''refunded''"

definition PaymentStatus_members :: "PaymentStatus list" where
  "PaymentStatus_members =
     [PaymentStatus_PENDING, PaymentStatus_PAID, PaymentStatus_FAILED, PaymentStatus_REFUNDED]"

text \<open>
  Calling an enumeration class on a value (\<open>BookingStatus("pending")\<close>) looks the member
  with that value up; a value of no member raises \<open>ValueError\<close>, here \<open>None\<close>.
\<close>

definition BookingStatus_call :: "string \<Rightarrow> BookingStatus option" where
  "BookingStatus_call s = find (\<lambda>m. BookingStatus_value m = s) BookingStatus_members"

definition OrderStatus_call :: "string \<Rightarrow> OrderStatus option" where
  "OrderStatus_call s = find (\<lambda>m. OrderStatus_value m = s) OrderStatus_members"

definition OrderType_call :: "string \<Rightarrow> OrderType option" where
  "OrderType_call s = find (\<lambda>m. OrderType_value m = s) OrderType_members"

definition PaymentStatus_call :: "string \<Rightarrow> PaymentStatus option" where
  "PaymentStatus_call s = find (\<lambda>m. PaymentStatus_value m = s) PaymentStatus_members"

subsection \<open>Values\<close>

text \<open>
  \<open>decimal.Decimal\<close>: sign, coefficient and exponent of a finite number (its value is
  \<open>\<plusminus> coefficient * 10 ^ exponent\<close>, negative when the sign is set), an infinity with
  its sign, or NaN. \<open>float\<close>: a binary floating-point number
  \<open>mantissa * 2 ^ exponent\<close>, an infinity with its sign (set for the negative one), or
  NaN. \<open>str\<close>: the
  list of its characters, so that \<open>length\<close> is what \<open>len\<close> counts. \<open>uuid.UUID\<close> and
  \<open>datetime\<close>: a number that identifies the value.
\<close>

datatype decimal =
  Decimal (dec_sign: bool) (dec_coeff: nat) (dec_exp: int)
  | DecimalInfinity bool
  | DecimalNaN

datatype pyfloat =
  Float (float_mantissa: int) (float_exponent: int)
  | FloatInf bool
  | FloatNaN

datatype pyval =
  VNone
  | VStr string
  | VInt int
  | VFloat pyfloat
  | VDecimal decimal
  | VUUID nat
  | VDatetime int
  | VBookingStatus BookingStatus
  | VOrderStatus OrderStatus
  | VOrderType OrderType
  | VPaymentStatus PaymentStatus

fun pow10 :: "int \<Rightarrow> rat" where
  "pow10 e = (if 0 \<le> e then 10 ^ nat e else 1 / 10 ^ nat (- e))"

fun pow2 :: "int \<Rightarrow> rat" where
  "pow2 e = (if 0 \<le> e then 2 ^ nat e else 1 / 2 ^ nat (- e))"

fun dec_value :: "decimal \<Rightarrow> rat option" where
  "dec_value (Decimal sg c e) = Some ((if sg then - 1 else 1) * of_nat c * pow10 e)"
| "dec_value _ = None"

fun float_value :: "pyfloat \<Rightarrow> rat option" where
  "float_value (Float m e) = Some (of_int m * pow2 e)"
| "float_value _ = None"

fun num_value :: "pyval \<Rightarrow> rat option" where
  "num_value (VInt i) = Some (of_int i)"
| "num_value (VDecimal d) = dec_value d"
| "num_value (VFloat x) = float_value x"
| "num_value _ = None"

fun str_value :: "pyval \<Rightarrow> string option" where
  "str_value (VStr s) = Some s"
| "str_value (VBookingStatus m) = Some (BookingStatus_value m)"
| "str_value (VOrderStatus m) = Some (OrderStatus_value m)"
| "str_value (VOrderType m) = Some (OrderType_value m)"
| "str_value (VPaymentStatus m) = Some (PaymentStatus_value m)"
| "str_value _ = None"

fun inf_sign :: "pyval \<Rightarrow> bool option" where
  "inf_sign (VFloat (FloatInf sg)) = Some sg"
| "inf_sign (VDecimal (DecimalInfinity sg)) = Some sg"
| "inf_sign _ = None"

fun is_number :: "pyval \<Rightarrow> bool" where
  "is_number (VInt i) = True"
| "is_number (VFloat x) = True"
| "is_number (VDecimal d) = True"
| "is_number _ = False"

text \<open>
  Python's \<open>==\<close> on these values. Numbers compare by value across \<open>int\<close>, \<open>float\<close>
  and \<open>Decimal\<close>: an infinity equals the infinity of its sign, and a NaN equals nothing,
  itself included. A member of a \<open>str\<close> enumeration is a string and compares as its
  value. Other values are equal when they are the same.
\<close>

definition py_eq :: "pyval \<Rightarrow> pyval \<Rightarrow> bool" where
  "py_eq a b \<longleftrightarrow>
     (if is_number a \<or> is_number b
      then (num_value a \<noteq> None \<and> num_value a = num_value b)
           \<or> (inf_sign a \<noteq> None \<and> inf_sign a = inf_sign b)
      else if str_value a \<noteq> None \<or> str_value b \<noteq> None
      then str_value a = str_value b
      else a = b)"

subsection \<open>Field declarations\<close>

datatype pytype =
  TStr | TInt | TFloat | TDecimal | TUUID | TDatetime
  | TBookingStatus | TOrderStatus | TOrderType | TPaymentStatus

datatype annotation = Plain pytype | Optional pytype

datatype factory = uuid4 | utcnow

datatype default_spec = Undefined | Default pyval | DefaultFactory factory

record FieldInfo =
  fdefault :: default_spec
  max_length :: "nat option"
  max_digits :: "nat option"
  decimal_places :: "nat option"
  ge :: "int option"
  primary_key :: bool
  foreign_key :: "string option"

text \<open>\<open>Field()\<close> with no keyword; a keyword of the source is a record update of it.\<close>

definition Field' :: FieldInfo where
  "Field' = \<lparr>fdefault = Undefined, max_length = None, max_digits = None,
             decimal_places = None, ge = None, primary_key = False, foreign_key = None\<rparr>"

type_synonym field_decl = "string \<times> annotation \<times> FieldInfo"

text \<open>
  A class: the name of its table (the class name in lower case, which is what the
  \<open>foreign_key\<close> keywords refer to), its field declarations, the \<open>table\<close> option of
  the class statement and the \<open>validate_assignment\<close> option of its \<open>Config\<close>, which
  is off where no \<open>Config\<close> is declared.
\<close>

record ModelClass =
  tablename :: string
  model_fields :: "field_decl list"
  table :: bool
  validate_assignment :: bool

definition User_fields :: "field_decl list" where
  "User_fields =
    [(''id'', Plain TUUID, Field'\<lparr>fdefault := DefaultFactory uuid4, primary_key := True\<rparr>),
     (''name'', Plain TStr, Field'\<lparr>max_length := Some 100\<rparr>),
     (''email'', Plain TStr, Field'\<lparr>max_length := Some 255\<rparr>),
     (''phone_number'', Plain TStr, Field'\<lparr>max_length := Some 15\<rparr>),
     (''role'', Plain TStr, Field'\<lparr>max_length := Some 5\<rparr>),
     (''created_at'', Plain TDatetime, Field'),
     (''updated_at'', Plain TDatetime, Field')]"

definition User :: ModelClass where
  "User = \<lparr>tablename = ''user'', model_fields = User_fields,
          table = True, validate_assignment = False\<rparr>"

definition Booking_fields :: "field_decl list" where
  "Booking_fields =
    [(''id'', Plain TUUID, Field'\<lparr>fdefault := DefaultFactory uuid4, primary_key := True\<rparr>),
     (''client_name'', Plain TStr, Field'\<lparr>max_length := Some 255\<rparr>),
     (''email'', Plain TStr, Field'\<lparr>max_length := Some 255\<rparr>),
     (''phone'', Optional TStr, Field'\<lparr>fdefault := Default VNone, max_length := Some 20\<rparr>),
     (''start_time'', Plain TDatetime, Field'),
     (''end_time'', Plain TDatetime, Field'),
     (''service_type'', Optional TStr,
        Field'\<lparr>fdefault := Default VNone, max_length := Some 100\<rparr>),
     (''notes'', Optional TStr, Field'\<lparr>fdefault := Default VNone, max_length := Some 1000\<rparr>),
     (''owner_name'', Plain TStr, Field'\<lparr>max_length := Some 255\<rparr>),
     (''address'', Plain TStr, Field'\<lparr>max_length := Some 255\<rparr>),
     (''status'', Plain TBookingStatus,
        Field'\<lparr>fdefault := Default (VBookingStatus BookingStatus_PENDING)\<rparr>),
     (''created_at'', Plain TDatetime, Field'\<lparr>fdefault := DefaultFactory utcnow\<rparr>),
     (''updated_at'', Plain TDatetime, Field'\<lparr>fdefault := DefaultFactory utcnow\<rparr>),
     (''user_id'', Optional TUUID,
        Field'\<lparr>fdefault := Default VNone, foreign_key := Some ''user.id''\<rparr>),
     (''estimated_price'', Optional TFloat, Field'\<lparr>fdefault := Default VNone\<rparr>),
     (''final_price'', Optional TFloat, Field'\<lparr>fdefault := Default VNone\<rparr>)]"

definition Booking :: ModelClass where
  "Booking = \<lparr>tablename = ''booking'', model_fields = Booking_fields,
          table = True, validate_assignment = False\<rparr>"

definition Order_fields :: "field_decl list" where
  "Order_fields =
    [(''id'', Plain TUUID, Field'\<lparr>fdefault := DefaultFactory uuid4, primary_key := True\<rparr>),
     (''user_id'', Optional TUUID,
        Field'\<lparr>fdefault := Default VNone, foreign_key := Some ''user.id''\<rparr>),
     (''customer_name'', Plain TStr, Field'\<lparr>max_length := Some 255\<rparr>),
     (''email'', Plain TStr, Field'\<lparr>max_length := Some 255\<rparr>),
     (''phone_number'', Optional TStr, Field'\<lparr>max_length := Some 15\<rparr>),
     (''address'', Optional TStr, Field'\<lparr>max_length := Some 255\<rparr>),
     (''city'', Optional TStr, Field'\<lparr>max_length := Some 255\<rparr>),
     (''state'', Optional TStr, Field'\<lparr>max_length := Some 100\<rparr>),
     (''postal_code'', Optional TStr, Field'\<lparr>max_length := Some 20\<rparr>),
     (''country'', Optional TStr,
        Field'\<lparr>max_length := Some 100, fdefault := Default (VStr ''US'')\<rparr>),
     (''order_type'', Plain TOrderType,
        Field'\<lparr>fdefault := Default (VOrderType OrderType_PICKUP)\<rparr>),
     (''subtotal'', Plain TDecimal, Field'\<lparr>max_digits := Some 10, decimal_places := Some 2\<rparr>),
     (''tax_amount'', Plain TDecimal,
        Field'\<lparr>fdefault := Default (VInt 0), max_digits := Some 10, decimal_places := Some 2\<rparr>),
     (''service_fee'', Plain TDecimal,
        Field'\<lparr>fdefault := Default (VInt 0), max_digits := Some 10, decimal_places := Some 2\<rparr>),
     (''discount_amount'', Plain TDecimal,
        Field'\<lparr>fdefault := Default (VInt 0), max_digits := Some 10, decimal_places := Some 2\<rparr>),
     (''tip_amount'', Plain TDecimal,
        Field'\<lparr>fdefault := Default (VInt 0), max_digits := Some 10, decimal_places := Some 2\<rparr>),
     (''total_amount'', Plain TDecimal,
        Field'\<lparr>max_digits := Some 10, decimal_places := Some 2\<rparr>),
     (''status'', Plain TOrderStatus,
        Field'\<lparr>fdefault := Default (VOrderStatus OrderStatus_PENDING)\<rparr>),
     (''payment_status'', Plain TPaymentStatus,
        Field'\<lparr>fdefault := Default (VPaymentStatus PaymentStatus_PENDING)\<rparr>),
     (''created_at'', Plain TDatetime, Field'\<lparr>fdefault := DefaultFactory utcnow\<rparr>),
     (''updated_at'', Plain TDatetime, Field'\<lparr>fdefault := DefaultFactory utcnow\<rparr>),
     (''scheduled_for'', Optional TDatetime, Field'\<lparr>fdefault := Default VNone\<rparr>),
     (''completed_at'', Optional TDatetime, Field'\<lparr>fdefault := Default VNone\<rparr>),
     (''special_instructions'', Optional TStr, Field'\<lparr>max_length := Some 1000\<rparr>),
     (''reference_number'', Optional TStr, Field'\<lparr>max_length := Some 100\<rparr>),
     (''payment_method'', Optional TStr, Field'\<lparr>max_length := Some 50\<rparr>),
     (''payment_reference'', Optional TStr, Field'\<lparr>max_length := Some 100\<rparr>),
     (''promo_code'', Optional TStr, Field'\<lparr>max_length := Some 50\<rparr>),
     (''business_notes'', Optional TStr, Field'\<lparr>max_length := Some 1000\<rparr>)]"

text \<open>\<open>class Config: validate_assignment = True\<close> is declared by \<open>Order\<close> alone.\<close>

definition Order :: ModelClass where
  "Order = \<lparr>tablename = ''order'', model_fields = Order_fields,
          table = True, validate_assignment = True\<rparr>"

definition OrderItem_fields :: "field_decl list" where
  "OrderItem_fields =
    [(''id'', Plain TUUID, Field'\<lparr>fdefault := DefaultFactory uuid4, primary_key := True\<rparr>),
     (''order_id'', Plain TUUID, Field'\<lparr>foreign_key := Some ''order.id''\<rparr>),
     (''item_name'', Plain TStr, Field'\<lparr>max_length := Some 255\<rparr>),
     (''item_description'', Optional TStr, Field'\<lparr>max_length := Some 500\<rparr>),
     (''item_category'', Optional TStr, Field'\<lparr>max_length := Some 100\<rparr>),
     (''quantity'', Plain TInt, Field'\<lparr>fdefault := Default (VInt 1), ge := Some 1\<rparr>),
     (''unit_price'', Plain TDecimal,
        Field'\<lparr>max_digits := Some 10, decimal_places := Some 2\<rparr>),
     (''total_price'', Plain TDecimal,
        Field'\<lparr>max_digits := Some 10, decimal_places := Some 2\<rparr>),
     (''customizations'', Optional TStr, Field'\<lparr>max_length := Some 500\<rparr>),
     (''item_notes'', Optional TStr, Field'\<lparr>max_length := Some 500\<rparr>),
     (''item_reference'', Optional TStr, Field'\<lparr>max_length := Some 100\<rparr>),
     (''created_at'', Plain TDatetime, Field'\<lparr>fdefault := DefaultFactory utcnow\<rparr>)]"

definition OrderItem :: ModelClass where
  "OrderItem = \<lparr>tablename = ''orderitem'', model_fields = OrderItem_fields,
          table = True, validate_assignment = False\<rparr>"

definition all_models :: "ModelClass list" where
  "all_models = [User, Booking, Order, OrderItem]"

subsection \<open>The validating library\<close>

text \<open>
  Validation first converts a value to the annotated type and then checks the keywords
  of the declaration. The conversions that the library makes by parsing text or by
  rounding (a string or a floating-point number to a decimal, a string to an identifier
  or to a time, and the like) are not computed here. They are a parameter:
  \<open>lib_convert L t v\<close> is the value of type \<open>t\<close> that the library makes of \<open>v\<close>, or
  \<open>None\<close> where it refuses \<open>v\<close>.
\<close>

record library =
  lib_convert :: "pytype \<Rightarrow> pyval \<Rightarrow> pyval option"

datatype error =
  NoneNotAllowed
  | TypeError
  | AnyStrMaxLength nat
  | NumberNotGe int
  | DecimalIsNotFinite
  | DecimalMaxDigits nat
  | DecimalMaxPlaces nat
  | DecimalWholeDigits nat
  | EnumMember
  | NoSuchField

subsection \<open>The digits of a decimal\<close>

text \<open>The length of the digit tuple of a coefficient: \<open>0\<close> has the one digit \<open>0\<close>.\<close>

fun ndigits :: "nat \<Rightarrow> nat" where
  "ndigits n = (if n < 10 then 1 else Suc (ndigits (n div 10)))"

declare ndigits.simps [simp del]

text \<open>
  The digits of a number are counted from its digit tuple and exponent. A non-negative
  exponent adds that many zeros and leaves no decimals; a negative exponent makes that
  many decimals, and when it exceeds the digit tuple the leading zeros after the point
  count as digits.
\<close>

definition count_digits :: "nat \<Rightarrow> int \<Rightarrow> nat \<times> nat" where
  "count_digits c e =
     (if 0 \<le> e then (ndigits c + nat e, 0)
      else if ndigits c < nat (- e) then (nat (- e), nat (- e))
      else (ndigits c, nat (- e)))"

text \<open>
  \<open>Decimal.normalize()\<close> in the default arithmetic context: the coefficient is rounded
  to the precision of the context, 28 digits, half to even; then the trailing zeros of
  the coefficient are moved into the exponent, and a zero becomes \<open>0\<close> with exponent
  \<open>0\<close>. The bounds that the context puts on the exponent lie beyond \<open>10 ^ 999999\<close> and
  are left out.
\<close>

definition prec :: nat where
  "prec = 28"

definition round_half_even :: "nat \<Rightarrow> nat \<Rightarrow> nat" where
  "round_half_even c k =
     (let q = c div 10 ^ k; r = c mod 10 ^ k
      in if 10 ^ k < 2 * r \<or> (2 * r = 10 ^ k \<and> odd q) then q + 1 else q)"

function strip_zeros :: "nat \<Rightarrow> int \<Rightarrow> nat \<times> int" where
  "strip_zeros c e =
     (if c \<noteq> 0 \<and> c mod 10 = 0 then strip_zeros (c div 10) (e + 1) else (c, e))"
  by pat_completeness auto
termination
  by (relation "measure fst") auto

declare strip_zeros.simps [simp del]

definition normalize :: "decimal \<Rightarrow> decimal" where
  "normalize d =
     (case d of
        Decimal sg c e \<Rightarrow>
          (let n = ndigits c;
               (c1, e1) = (if prec < n
                           then (round_half_even c (n - prec), e + int (n - prec))
                           else (c, e));
               (c2, e2) = strip_zeros c1 e1
           in if c2 = 0 then Decimal sg 0 0 else Decimal sg c2 e2)
      | _ \<Rightarrow> d)"

text \<open>
  \<open>max_digits\<close> and \<open>decimal_places\<close>: a decimal that is not finite is refused. The
  digits and the decimals are counted of the number as it is written and of the
  normalized number, and a bound is exceeded when both counts exceed it, so that zeros at
  the end of the fraction do not count. With both keywords declared, the digits before
  the point, as written, may not exceed the difference of the two bounds. The decimal
  that passes is kept as it is written.
\<close>

definition check_decimal :: "FieldInfo \<Rightarrow> decimal \<Rightarrow> error + decimal" where
  "check_decimal fi d =
     (case d of
        Decimal sg c e \<Rightarrow>
          (let (digits, decimals) = count_digits c e;
               (norm_digits, norm_decimals) =
                  (case normalize d of
                     Decimal sg' c' e' \<Rightarrow> count_digits c' e'
                   | _ \<Rightarrow> (digits, decimals))
           in if (case max_digits fi of
                    Some m \<Rightarrow> m < digits \<and> m < norm_digits | None \<Rightarrow> False)
              then Inl (DecimalMaxDigits (the (max_digits fi)))
              else if (case decimal_places fi of
                         Some p \<Rightarrow> p < decimals \<and> p < norm_decimals | None \<Rightarrow> False)
              then Inl (DecimalMaxPlaces (the (decimal_places fi)))
              else (case (max_digits fi, decimal_places fi) of
                      (Some m, Some p) \<Rightarrow>
                        if m - p < digits - decimals then Inl (DecimalWholeDigits (m - p))
                        else Inr d
                    | _ \<Rightarrow> Inr d))
      | _ \<Rightarrow> Inl DecimalIsNotFinite)"

subsection \<open>Validation of one value against its declaration\<close>

text \<open>
  The conversion to the annotated type. A value of the type is taken as it is. An
  integer becomes the decimal with that coefficient and exponent \<open>0\<close>. Every other
  conversion to a string, a number, an identifier or a time is the library's.
\<close>

definition to_str :: "library \<Rightarrow> pyval \<Rightarrow> string option" where
  "to_str L v =
     (case v of
        VStr s \<Rightarrow> Some s
      | _ \<Rightarrow> (case lib_convert L TStr v of Some (VStr s) \<Rightarrow> Some s | _ \<Rightarrow> None))"

definition to_int :: "library \<Rightarrow> pyval \<Rightarrow> int option" where
  "to_int L v =
     (case v of
        VInt i \<Rightarrow> Some i
      | _ \<Rightarrow> (case lib_convert L TInt v of Some (VInt i) \<Rightarrow> Some i | _ \<Rightarrow> None))"

definition to_float :: "library \<Rightarrow> pyval \<Rightarrow> pyfloat option" where
  "to_float L v =
     (case v of
        VFloat x \<Rightarrow> Some x
      | _ \<Rightarrow> (case lib_convert L TFloat v of Some (VFloat x) \<Rightarrow> Some x | _ \<Rightarrow> None))"

definition to_decimal :: "library \<Rightarrow> pyval \<Rightarrow> decimal option" where
  "to_decimal L v =
     (case v of
        VDecimal d \<Rightarrow> Some d
      | VInt i \<Rightarrow> Some (Decimal (i < 0) (nat \<bar>i\<bar>) 0)
      | _ \<Rightarrow> (case lib_convert L TDecimal v of Some (VDecimal d) \<Rightarrow> Some d | _ \<Rightarrow> None))"

definition to_uuid :: "library \<Rightarrow> pyval \<Rightarrow> nat option" where
  "to_uuid L v =
     (case v of
        VUUID u \<Rightarrow> Some u
      | _ \<Rightarrow> (case lib_convert L TUUID v of Some (VUUID u) \<Rightarrow> Some u | _ \<Rightarrow> None))"

definition to_datetime :: "library \<Rightarrow> pyval \<Rightarrow> int option" where
  "to_datetime L v =
     (case v of
        VDatetime t \<Rightarrow> Some t
      | _ \<Rightarrow> (case lib_convert L TDatetime v of Some (VDatetime t) \<Rightarrow> Some t | _ \<Rightarrow> None))"

text \<open>
  A field of an enumeration type takes the member whose value the given value equals:
  a member of the enumeration itself, a string, or a member of another \<open>str\<close>
  enumeration, which is a string. The stored value is the member.
\<close>

fun validate_type :: "library \<Rightarrow> pytype \<Rightarrow> FieldInfo \<Rightarrow> pyval \<Rightarrow> error + pyval" where
  "validate_type L TStr fi v =
     (case to_str L v of
        None \<Rightarrow> Inl TypeError
      | Some s \<Rightarrow>
          (case max_length fi of
             Some n \<Rightarrow> if n < length s then Inl (AnyStrMaxLength n) else Inr (VStr s)
           | None \<Rightarrow> Inr (VStr s)))"
| "validate_type L TInt fi v =
     (case to_int L v of
        None \<Rightarrow> Inl TypeError
      | Some i \<Rightarrow>
          (case ge fi of
             Some b \<Rightarrow> if b \<le> i then Inr (VInt i) else Inl (NumberNotGe b)
           | None \<Rightarrow> Inr (VInt i)))"
| "validate_type L TFloat fi v =
     (case to_float L v of None \<Rightarrow> Inl TypeError | Some x \<Rightarrow> Inr (VFloat x))"
| "validate_type L TDecimal fi v =
     (case to_decimal L v of
        None \<Rightarrow> Inl TypeError
      | Some d \<Rightarrow>
          (case check_decimal fi d of Inl e \<Rightarrow> Inl e | Inr d' \<Rightarrow> Inr (VDecimal d')))"
| "validate_type L TUUID fi v =
     (case to_uuid L v of None \<Rightarrow> Inl TypeError | Some u \<Rightarrow> Inr (VUUID u))"
| "validate_type L TDatetime fi v =
     (case to_datetime L v of None \<Rightarrow> Inl TypeError | Some t \<Rightarrow> Inr (VDatetime t))"
| "validate_type L TBookingStatus fi v =
     (case str_value v of
        None \<Rightarrow> Inl EnumMember
      | Some s \<Rightarrow>
          (case BookingStatus_call s of
             Some m \<Rightarrow> Inr (VBookingStatus m) | None \<Rightarrow> Inl EnumMember))"
| "validate_type L TOrderStatus fi v =
     (case str_value v of
        None \<Rightarrow> Inl EnumMember
      | Some s \<Rightarrow>
          (case OrderStatus_call s of
             Some m \<Rightarrow> Inr (VOrderStatus m) | None \<Rightarrow> Inl EnumMember))"
| "validate_type L TOrderType fi v =
     (case str_value v of
        None \<Rightarrow> Inl EnumMember
      | Some s \<Rightarrow>
          (case OrderType_call s of
             Some m \<Rightarrow> Inr (VOrderType m) | None \<Rightarrow> Inl EnumMember))"
| "validate_type L TPaymentStatus fi v =
     (case str_value v of
        None \<Rightarrow> Inl EnumMember
      | Some s \<Rightarrow>
          (case PaymentStatus_call s of
             Some m \<Rightarrow> Inr (VPaymentStatus m) | None \<Rightarrow> Inl EnumMember))"

text \<open>\<open>None\<close> is a value of an \<open>Optional\<close> annotation and of no other.\<close>

fun validate_field :: "library \<Rightarrow> annotation \<Rightarrow> FieldInfo \<Rightarrow> pyval \<Rightarrow> error + pyval" where
  "validate_field L (Optional t) fi v =
     (if v = VNone then Inr VNone else validate_type L t fi v)"
| "validate_field L (Plain t) fi v =
     (if v = VNone then Inl NoneNotAllowed else validate_type L t fi v)"

text \<open>The check that the declaration of a field of a class puts on a value.\<close>

definition validate_attr :: "library \<Rightarrow> ModelClass \<Rightarrow> string \<Rightarrow> pyval \<Rightarrow> error + pyval" where
  "validate_attr L cls name v =
     (case map_of (model_fields cls) name of
        None \<Rightarrow> Inl NoSuchField
      | Some (ann, fi) \<Rightarrow> validate_field L ann fi v)"

subsection \<open>Assigning to a field and creating an object\<close>

type_synonym kwargs = "string \<rightharpoonup> pyval"
type_synonym obj = "string \<rightharpoonup> pyval"

text \<open>
  Assignment to an attribute. A name that is no field of the class is refused and the
  object is as it was. In a class without \<open>validate_assignment\<close> the value is stored as
  it is. In a class with it the value is validated and the validated value is stored;
  when the validation fails the error is raised, and in a table class the object then
  holds the value that was assigned, because the attribute is written before the
  validation runs. The result is the object after a successful assignment, or the error
  together with the object as the failed assignment leaves it.
\<close>

definition setattr ::
  "library \<Rightarrow> ModelClass \<Rightarrow> obj \<Rightarrow> string \<Rightarrow> pyval \<Rightarrow> (error \<times> obj) + obj" where
  "setattr L cls self name v =
     (case map_of (model_fields cls) name of
        None \<Rightarrow> Inl (NoSuchField, self)
      | Some (ann, fi) \<Rightarrow>
          if validate_assignment cls
          then (case validate_field L ann fi v of
                  Inl e \<Rightarrow> Inl (e, if table cls then self(name \<mapsto> v) else self)
                | Inr v' \<Rightarrow> Inr (self(name \<mapsto> v')))
          else Inr (self(name \<mapsto> v)))"

text \<open>What an assignment to a field stores, or the error that it raises.\<close>

definition store :: "library \<Rightarrow> ModelClass \<Rightarrow> field_decl \<Rightarrow> pyval \<Rightarrow> error + pyval" where
  "store L cls f v =
     (if validate_assignment cls then validate_field L (fst (snd f)) (snd (snd f)) v
      else Inr v)"

text \<open>
  The default factories are effects: \<open>uuid.uuid4\<close> draws an identifier and
  \<open>datetime.utcnow\<close> reads the clock. What they return is passed in.
\<close>

record env =
  uuid4_returns :: nat
  utcnow_returns :: int

fun call_factory :: "env \<Rightarrow> factory \<Rightarrow> pyval" where
  "call_factory en uuid4 = VUUID (uuid4_returns en)"
| "call_factory en utcnow = VDatetime (utcnow_returns en)"

text \<open>The default of a field, where one is declared.\<close>

definition get_default :: "env \<Rightarrow> FieldInfo \<Rightarrow> pyval option" where
  "get_default en fi =
     (case fdefault fi of
        Undefined \<Rightarrow> None
      | Default v \<Rightarrow> Some v
      | DefaultFactory g \<Rightarrow> Some (call_factory en g))"

text \<open>
  The value that the constructor assigns to a field: the keyword argument of its name,
  or else its default; a field with neither is not assigned.
\<close>

definition init_value :: "env \<Rightarrow> kwargs \<Rightarrow> field_decl \<Rightarrow> pyval option" where
  "init_value en kw f =
     (case kw (fst f) of
        Some v \<Rightarrow> Some v
      | None \<Rightarrow> get_default en (snd (snd f)))"

text \<open>
  The assignments of the constructor, field by field: \<open>pick\<close> says which value a field
  gets in this pass, if any. The first assignment that fails ends the construction with
  its error.
\<close>

fun assign_fields ::
  "library \<Rightarrow> ModelClass \<Rightarrow> (field_decl \<Rightarrow> pyval option) \<Rightarrow> obj \<Rightarrow> field_decl list
     \<Rightarrow> (string \<times> error) + obj" where
  "assign_fields L cls pick self [] = Inr self"
| "assign_fields L cls pick self (f # fs) =
     (case pick f of
        None \<Rightarrow> assign_fields L cls pick self fs
      | Some v \<Rightarrow>
          (case setattr L cls self (fst f) v of
             Inl (e, self') \<Rightarrow> Inl (fst f, e)
           | Inr self' \<Rightarrow> assign_fields L cls pick self' fs))"

text \<open>An object none of whose fields is assigned: every field reads \<open>None\<close>.\<close>

definition unset :: "ModelClass \<Rightarrow> obj" where
  "unset cls = map_of (map (\<lambda>f. (fst f, VNone)) (model_fields cls))"

text \<open>
  The constructor of a table class, which all four classes are. It validates nothing by
  itself: it assigns the keyword arguments that name a field, in the order of the
  declarations, and then the defaults of the fields that got no keyword argument.
  Keywords that name no field are ignored, and a field with neither a keyword argument
  nor a default stays unassigned and reads \<open>None\<close>. The assignments are those of
  \<open>setattr\<close>, so a class with \<open>validate_assignment\<close> validates each of them, the
  defaults included.
\<close>

definition create ::
  "library \<Rightarrow> ModelClass \<Rightarrow> env \<Rightarrow> kwargs \<Rightarrow> (string \<times> error) + obj" where
  "create L cls en kw =
     (case assign_fields L cls (\<lambda>f. kw (fst f)) (unset cls) (model_fields cls) of
        Inl e \<Rightarrow> Inl e
      | Inr self \<Rightarrow>
          assign_fields L cls
            (\<lambda>f. if kw (fst f) = None then get_default en (snd (snd f)) else None)
            self (model_fields cls))"

text \<open>
  What the constructor of a class with \<open>validate_assignment\<close> makes of a field: the
  validated value that it assigns, the error of that validation, or \<open>None\<close> for a field
  that is not assigned.
\<close>

definition field_result :: "library \<Rightarrow> env \<Rightarrow> kwargs \<Rightarrow> field_decl \<Rightarrow> error + pyval" where
  "field_result L en kw f =
     (case init_value en kw f of
        None \<Rightarrow> Inr VNone
      | Some v \<Rightarrow> validate_field L (fst (snd f)) (snd (snd f)) v)"

text \<open>What the constructor of a class without \<open>validate_assignment\<close> stores in a field.\<close>

definition raw_value :: "env \<Rightarrow> kwargs \<Rightarrow> field_decl \<Rightarrow> pyval" where
  "raw_value en kw f = (case init_value en kw f of None \<Rightarrow> VNone | Some v \<Rightarrow> v)"

subsection \<open>The numeric fields of a class\<close>

fun annotation_type :: "annotation \<Rightarrow> pytype" where
  "annotation_type (Plain t) = t"
| "annotation_type (Optional t) = t"

definition is_numeric :: "pytype \<Rightarrow> bool" where
  "is_numeric t \<longleftrightarrow> t = TInt \<or> t = TFloat \<or> t = TDecimal"

definition numeric_fields :: "ModelClass \<Rightarrow> string list" where
  "numeric_fields cls =
     map fst (filter (\<lambda>f. is_numeric (annotation_type (fst (snd f)))) (model_fields cls))"

subsection \<open>Sample inputs\<close>

text \<open>
  A concrete library, environment and keyword arguments, used to run the definitions.
  The sample library converts nothing by parsing; the sample inputs need no such
  conversion.
\<close>

definition lib0 :: library where
  "lib0 = \<lparr>lib_convert = (\<lambda>t v. None)\<rparr>"

definition env0 :: env where
  "env0 = \<lparr>uuid4_returns = 7, utcnow_returns = 1700000000\<rparr>"

definition ten :: pyval where
  "ten = VDecimal (Decimal False 1000 (- 2))"

definition order_kw :: kwargs where
  "order_kw = [''customer_name'' \<mapsto> VStr ''Ann'', ''email'' \<mapsto> VStr ''ann@example.org'',
               ''subtotal'' \<mapsto> ten, ''total_amount'' \<mapsto> ten]"

definition spec_order_kw :: kwargs where
  "spec_order_kw = [''subtotal'' \<mapsto> ten, ''total_amount'' \<mapsto> ten]"

definition item_kw :: kwargs where
  "item_kw = [''order_id'' \<mapsto> VUUID 3, ''item_name'' \<mapsto> VStr ''Coffee'',
              ''unit_price'' \<mapsto> VDecimal (Decimal False 350 (- 2)),
              ''total_price'' \<mapsto> VDecimal (Decimal False 350 (- 2))]"

definition booking_kw :: kwargs where
  "booking_kw = [''client_name'' \<mapsto> VStr ''Ann'', ''email'' \<mapsto> VStr ''ann@example.org'',
                 ''start_time'' \<mapsto> VDatetime 1700003600, ''end_time'' \<mapsto> VDatetime 1700007200,
                 ''owner_name'' \<mapsto> VStr ''Bo'', ''address'' \<mapsto> VStr ''1 Main Street'']"

text \<open>
  The Python literal \<open>0.1\<close> is the binary floating-point number
  \<open>3602879701896397 * 2 ^ (-55)\<close>, the one nearest to a tenth.
\<close>

definition float_0_1 :: pyfloat where
  "float_0_1 = Float 3602879701896397 (- 55)"

definition booking_price_kw :: kwargs where
  "booking_price_kw = booking_kw(''estimated_price'' \<mapsto> VFloat float_0_1)"

section \<open>Properties of assignment and creation\<close>

subsection \<open>The assignments of the constructor\<close>

lemma setattr_store:
  assumes "map_of (model_fields cls) (fst f) = Some (snd f)"
  shows "setattr L cls self (fst f) v =
           (case store L cls f v of
              Inl e \<Rightarrow> Inl (e, if table cls then self(fst f \<mapsto> v) else self)
            | Inr v' \<Rightarrow> Inr (self(fst f \<mapsto> v')))"
  using assms by (cases "snd f") (simp add: setattr_def store_def)

lemma assign_fields_frame:
  assumes "assign_fields L cls pick self fs = Inr ob"
    and "\<forall>f \<in> set fs. map_of (model_fields cls) (fst f) = Some (snd f)"
    and "\<forall>f \<in> set fs. fst f = n \<longrightarrow> pick f = None"
  shows "ob n = self n"
  using assms
proof (induction fs arbitrary: self)
  case Nil
  then show ?case by simp
next
  case (Cons f fs)
  show ?case
  proof (cases "pick f")
    case None
    with Cons.prems have "assign_fields L cls pick self fs = Inr ob" by simp
    with Cons.IH Cons.prems show ?thesis by simp
  next
    case (Some v)
    with Cons.prems(3) have ne: "fst f \<noteq> n" by auto
    from Cons.prems(2) have m: "map_of (model_fields cls) (fst f) = Some (snd f)" by simp
    from Cons.prems(1) Some obtain v' where st: "store L cls f v = Inr v'"
      and rest: "assign_fields L cls pick (self(fst f \<mapsto> v')) fs = Inr ob"
      by (auto simp: setattr_store [OF m] split: sum.splits)
    from Cons.IH [OF rest] Cons.prems(2,3) have "ob n = (self(fst f \<mapsto> v')) n" by simp
    with ne show ?thesis by simp
  qed
qed

lemma assign_fields_stored:
  assumes "assign_fields L cls pick self fs = Inr ob"
    and "\<forall>f \<in> set fs. map_of (model_fields cls) (fst f) = Some (snd f)"
    and "distinct (map fst fs)"
    and "f \<in> set fs" and "pick f = Some v"
  shows "\<exists>v'. store L cls f v = Inr v' \<and> ob (fst f) = Some v'"
  using assms
proof (induction fs arbitrary: self)
  case Nil
  then show ?case by simp
next
  case (Cons g gs)
  from Cons.prems(2) have m: "map_of (model_fields cls) (fst g) = Some (snd g)" by simp
  show ?case
  proof (cases "f = g")
    case True
    with Cons.prems(1,5) obtain v' where st: "store L cls g v = Inr v'"
      and rest: "assign_fields L cls pick (self(fst g \<mapsto> v')) gs = Inr ob"
      by (auto simp: setattr_store [OF m] split: sum.splits)
    from Cons.prems(3) have "fst g \<notin> fst ` set gs" by simp
    then have "\<forall>h \<in> set gs. fst h = fst g \<longrightarrow> pick h = None"
      by (metis imageI)
    moreover from Cons.prems(2)
    have "\<forall>h \<in> set gs. map_of (model_fields cls) (fst h) = Some (snd h)" by simp
    ultimately have "ob (fst g) = (self(fst g \<mapsto> v')) (fst g)"
      using assign_fields_frame [of L cls pick "self(fst g \<mapsto> v')" gs ob "fst g"] rest
      by blast
    with st True show ?thesis by simp
  next
    case False
    with Cons.prems(4) have fin: "f \<in> set gs" by simp
    show ?thesis
    proof (cases "pick g")
      case None
      with Cons.prems(1) have "assign_fields L cls pick self gs = Inr ob" by simp
      from Cons.IH [OF this] Cons.prems(2,3,5) fin show ?thesis by simp
    next
      case (Some w)
      with Cons.prems(1) obtain w' where
        rest: "assign_fields L cls pick (self(fst g \<mapsto> w')) gs = Inr ob"
        by (auto simp: setattr_store [OF m] split: sum.splits)
      from Cons.IH [OF rest] Cons.prems(2,3,5) fin show ?thesis by simp
    qed
  qed
qed

lemma assign_fields_raises:
  assumes "assign_fields L cls pick self fs = Inl x"
    and "\<forall>f \<in> set fs. map_of (model_fields cls) (fst f) = Some (snd f)"
  shows "\<exists>f \<in> set fs. \<exists>v. pick f = Some v \<and> isl (store L cls f v)"
  using assms
proof (induction fs arbitrary: self)
  case Nil
  then show ?case by simp
next
  case (Cons g gs)
  from Cons.prems(2) have m: "map_of (model_fields cls) (fst g) = Some (snd g)" by simp
  show ?case
  proof (cases "pick g")
    case None
    with Cons.prems(1) have "assign_fields L cls pick self gs = Inl x" by simp
    from Cons.IH [OF this] Cons.prems(2) show ?thesis by auto
  next
    case (Some w)
    show ?thesis
    proof (cases "store L cls g w")
      case (Inl e)
      with Some show ?thesis by auto
    next
      case (Inr w')
      with Some Cons.prems(1) have "assign_fields L cls pick (self(fst g \<mapsto> w')) gs = Inl x"
        by (simp add: setattr_store [OF m])
      from Cons.IH [OF this] Cons.prems(2) show ?thesis by auto
    qed
  qed
qed

lemma assign_fields_rejected:
  assumes "assign_fields L cls pick self fs = Inr ob"
    and "\<forall>f \<in> set fs. map_of (model_fields cls) (fst f) = Some (snd f)"
    and "f \<in> set fs" and "pick f = Some v"
  shows "\<not> isl (store L cls f v)"
  using assms
proof (induction fs arbitrary: self)
  case Nil
  then show ?case by simp
next
  case (Cons g gs)
  from Cons.prems(2) have m: "map_of (model_fields cls) (fst g) = Some (snd g)" by simp
  show ?case
  proof (cases "pick g")
    case None
    with Cons.prems(1) have r: "assign_fields L cls pick self gs = Inr ob" by simp
    from None Cons.prems(3,4) have "f \<in> set gs" by auto
    from Cons.IH [OF r] Cons.prems(2,4) this show ?thesis by simp
  next
    case (Some w)
    with Cons.prems(1) obtain w' where st: "store L cls g w = Inr w'"
      and rest: "assign_fields L cls pick (self(fst g \<mapsto> w')) gs = Inr ob"
      by (auto simp: setattr_store [OF m] split: sum.splits)
    show ?thesis
    proof (cases "f = g")
      case True
      with Some Cons.prems(4) st show ?thesis by simp
    next
      case False
      with Cons.prems(3) have "f \<in> set gs" by simp
      from Cons.IH [OF rest] Cons.prems(2,4) this show ?thesis by simp
    qed
  qed
qed

subsection \<open>What the constructor stores\<close>

lemma fields_lookup:
  assumes "distinct (map fst (model_fields cls))"
  shows "\<forall>f \<in> set (model_fields cls). map_of (model_fields cls) (fst f) = Some (snd f)"
  using assms by (auto simp: map_of_eq_Some_iff)

lemma same_name_same_field:
  assumes "distinct (map fst (model_fields cls))"
    and "f \<in> set (model_fields cls)" and "g \<in> set (model_fields cls)" and "fst g = fst f"
  shows "g = f"
proof -
  from fields_lookup [OF assms(1)] assms(2,3)
  have "map_of (model_fields cls) (fst f) = Some (snd f)"
    and "map_of (model_fields cls) (fst g) = Some (snd g)"
    by blast+
  with assms(4) have "snd g = snd f" by simp
  with assms(4) show ?thesis by (simp add: prod_eq_iff)
qed

lemma unset_field:
  assumes "f \<in> set (model_fields cls)"
  shows "unset cls (fst f) = Some VNone"
proof -
  from assms have "fst f \<in> fst ` set (map (\<lambda>f. (fst f, VNone)) (model_fields cls))"
    by (force simp: image_iff)
  then obtain y where "map_of (map (\<lambda>f. (fst f, VNone)) (model_fields cls)) (fst f) = Some y"
    by (metis domD dom_map_of_conv_image_fst)
  moreover from this have "(fst f, y) \<in> set (map (\<lambda>f. (fst f, VNone)) (model_fields cls))"
    by (rule map_of_SomeD)
  then have "y = VNone" by auto
  ultimately show ?thesis by (simp add: unset_def)
qed

lemma create_passes:
  assumes "create L cls en kw = Inr ob"
  shows "\<exists>ob1. assign_fields L cls (\<lambda>f. kw (fst f)) (unset cls) (model_fields cls) = Inr ob1
           \<and> assign_fields L cls
                (\<lambda>f. if kw (fst f) = None then get_default en (snd (snd f)) else None)
                ob1 (model_fields cls) = Inr ob"
  using assms by (auto simp: create_def split: sum.splits)

lemma create_field:
  assumes "create L cls en kw = Inr ob" and "distinct (map fst (model_fields cls))"
    and "f \<in> set (model_fields cls)"
  shows "case init_value en kw f of
           None \<Rightarrow> ob (fst f) = Some VNone
         | Some v \<Rightarrow> (\<exists>v'. store L cls f v = Inr v' \<and> ob (fst f) = Some v')"
proof -
  let ?p1 = "\<lambda>f. kw (fst f)"
  let ?p2 = "\<lambda>f. if kw (fst f) = None then get_default en (snd (snd f)) else None"
  from create_passes [OF assms(1)] obtain ob1
    where p1: "assign_fields L cls ?p1 (unset cls) (model_fields cls) = Inr ob1"
      and p2: "assign_fields L cls ?p2 ob1 (model_fields cls) = Inr ob"
    by blast
  note lk = fields_lookup [OF assms(2)]
  show ?thesis
  proof (cases "kw (fst f)")
    case (Some v)
    from assign_fields_stored [OF p1 lk assms(2,3), of v] Some
    obtain v' where st: "store L cls f v = Inr v'" and o1: "ob1 (fst f) = Some v'" by auto
    from Some have "\<forall>g \<in> set (model_fields cls). fst g = fst f \<longrightarrow> ?p2 g = None" by simp
    from assign_fields_frame [OF p2 lk this] o1 have "ob (fst f) = Some v'" by simp
    with st Some show ?thesis by (simp add: init_value_def)
  next
    case None
    then have "\<forall>g \<in> set (model_fields cls). fst g = fst f \<longrightarrow> ?p1 g = None" by simp
    from assign_fields_frame [OF p1 lk this] unset_field [OF assms(3)]
    have o1: "ob1 (fst f) = Some VNone" by simp
    show ?thesis
    proof (cases "get_default en (snd (snd f))")
      case dn: None
      have "\<forall>g \<in> set (model_fields cls). fst g = fst f \<longrightarrow> ?p2 g = None"
      proof (intro ballI impI)
        fix g assume "g \<in> set (model_fields cls)" and "fst g = fst f"
        with same_name_same_field [OF assms(2,3)] have "g = f" by blast
        with dn show "?p2 g = None" by simp
      qed
      from assign_fields_frame [OF p2 lk this] o1 have "ob (fst f) = Some VNone" by simp
      with None dn show ?thesis by (simp add: init_value_def)
    next
      case (Some dv)
      with None have "?p2 f = Some dv" by simp
      from assign_fields_stored [OF p2 lk assms(2,3) this] None Some
      show ?thesis by (simp add: init_value_def)
    qed
  qed
qed

lemma create_succeeds:
  assumes "distinct (map fst (model_fields cls))"
    and "\<forall>f \<in> set (model_fields cls). \<forall>v. init_value en kw f = Some v \<longrightarrow> \<not> isl (store L cls f v)"
  shows "\<exists>ob. create L cls en kw = Inr ob"
proof -
  let ?p1 = "\<lambda>f. kw (fst f)"
  let ?p2 = "\<lambda>f. if kw (fst f) = None then get_default en (snd (snd f)) else None"
  note lk = fields_lookup [OF assms(1)]
  have i1: "init_value en kw f = Some v" if "?p1 f = Some v" for f v
    using that by (simp add: init_value_def)
  have i2: "init_value en kw f = Some v" if "?p2 f = Some v" for f v
    using that by (simp add: init_value_def split: if_splits)
  obtain ob1 where p1: "assign_fields L cls ?p1 (unset cls) (model_fields cls) = Inr ob1"
  proof (cases "assign_fields L cls ?p1 (unset cls) (model_fields cls)")
    case (Inl x)
    from assign_fields_raises [OF Inl lk] obtain f v
      where "f \<in> set (model_fields cls)" and "?p1 f = Some v" and "isl (store L cls f v)"
      by blast
    with assms(2) i1 have False by blast
    then show ?thesis ..
  next
    case (Inr ob1)
    with that show ?thesis by blast
  qed
  obtain ob where p2: "assign_fields L cls ?p2 ob1 (model_fields cls) = Inr ob"
  proof (cases "assign_fields L cls ?p2 ob1 (model_fields cls)")
    case (Inl x)
    from assign_fields_raises [OF Inl lk] obtain f v
      where "f \<in> set (model_fields cls)" and "?p2 f = Some v" and "isl (store L cls f v)"
      by blast
    with assms(2) i2 have False by blast
    then show ?thesis ..
  next
    case (Inr ob)
    with that show ?thesis by blast
  qed
  from p1 p2 show ?thesis by (simp add: create_def)
qed

lemma create_fails:
  assumes "distinct (map fst (model_fields cls))" and "f \<in> set (model_fields cls)"
    and "init_value en kw f = Some v" and "isl (store L cls f v)"
  shows "isl (create L cls en kw)"
proof (rule ccontr)
  assume "\<not> isl (create L cls en kw)"
  then obtain ob where "create L cls en kw = Inr ob" by (cases "create L cls en kw") auto
  from create_field [OF this assms(1,2)] assms(3,4) show False by auto
qed

subsection \<open>Classes that validate and classes that do not\<close>

lemma field_result_store:
  assumes "validate_assignment cls"
  shows "field_result L en kw f =
           (case init_value en kw f of None \<Rightarrow> Inr VNone | Some v \<Rightarrow> store L cls f v)"
  using assms by (simp add: field_result_def store_def split: option.splits)

lemma create_Inr_iff:
  assumes "validate_assignment cls" and "distinct (map fst (model_fields cls))"
  shows "(\<exists>ob. create L cls en kw = Inr ob)
           \<longleftrightarrow> (\<forall>f \<in> set (model_fields cls). \<not> isl (field_result L en kw f))"
proof
  assume "\<exists>ob. create L cls en kw = Inr ob"
  then obtain ob where ob: "create L cls en kw = Inr ob" ..
  show "\<forall>f \<in> set (model_fields cls). \<not> isl (field_result L en kw f)"
  proof
    fix f assume "f \<in> set (model_fields cls)"
    from create_field [OF ob assms(2) this] show "\<not> isl (field_result L en kw f)"
      by (auto simp: field_result_store [OF assms(1)] split: option.splits)
  qed
next
  assume a: "\<forall>f \<in> set (model_fields cls). \<not> isl (field_result L en kw f)"
  have "\<forall>f \<in> set (model_fields cls). \<forall>v. init_value en kw f = Some v \<longrightarrow> \<not> isl (store L cls f v)"
  proof (intro ballI allI impI)
    fix f v assume "f \<in> set (model_fields cls)" and "init_value en kw f = Some v"
    with a show "\<not> isl (store L cls f v)"
      by (auto simp: field_result_store [OF assms(1)])
  qed
  with assms(2) show "\<exists>ob. create L cls en kw = Inr ob" by (rule create_succeeds)
qed

lemma create_validated:
  assumes "create L cls en kw = Inr ob" and "validate_assignment cls"
    and "distinct (map fst (model_fields cls))"
    and "map_of (model_fields cls) name = Some (ann, fi)"
  shows "\<exists>v. field_result L en kw (name, ann, fi) = Inr v \<and> ob name = Some v"
proof -
  from assms(4) have mem: "(name, ann, fi) \<in> set (model_fields cls)" by (rule map_of_SomeD)
  from create_field [OF assms(1,3) mem] show ?thesis
    by (auto simp: field_result_store [OF assms(2)] split: option.splits)
qed

lemma create_raw:
  assumes "\<not> validate_assignment cls" and "distinct (map fst (model_fields cls))"
  shows "\<exists>ob. create L cls en kw = Inr ob
           \<and> (\<forall>f \<in> set (model_fields cls). ob (fst f) = Some (raw_value en kw f))"
proof -
  from assms(1) have "\<forall>f \<in> set (model_fields cls). \<forall>v. init_value en kw f = Some v
                        \<longrightarrow> \<not> isl (store L cls f v)"
    by (simp add: store_def)
  with assms(2) obtain ob where ob: "create L cls en kw = Inr ob"
    using create_succeeds by blast
  have "\<forall>f \<in> set (model_fields cls). ob (fst f) = Some (raw_value en kw f)"
  proof
    fix f assume "f \<in> set (model_fields cls)"
    from create_field [OF ob assms(2) this] assms(1)
    show "ob (fst f) = Some (raw_value en kw f)"
      by (auto simp: raw_value_def store_def split: option.splits)
  qed
  with ob show ?thesis by blast
qed

lemma distinct_User: "distinct (map fst User_fields)"
  by (simp add: User_fields_def)

lemma distinct_Booking: "distinct (map fst Booking_fields)"
  by (simp add: Booking_fields_def)

lemma distinct_Order: "distinct (map fst Order_fields)"
  by (simp add: Order_fields_def)

lemma distinct_OrderItem: "distinct (map fst OrderItem_fields)"
  by (simp add: OrderItem_fields_def)

lemma distinct_models:
  "distinct (map fst (model_fields User))" "distinct (map fst (model_fields Booking))"
  "distinct (map fst (model_fields Order))" "distinct (map fst (model_fields OrderItem))"
  by (simp_all add: User_def Booking_def Order_def OrderItem_def distinct_User distinct_Booking
      distinct_Order distinct_OrderItem)

lemma class_options:
  "table User" "table Booking" "table Order" "table OrderItem"
  "\<not> validate_assignment User" "\<not> validate_assignment Booking"
  "validate_assignment Order" "\<not> validate_assignment OrderItem"
  by (simp_all add: User_def Booking_def Order_def OrderItem_def)

subsection \<open>The enumerations are closed value sets\<close>

lemma BookingStatus_call_iff:
  "BookingStatus_call s = Some m \<longleftrightarrow> BookingStatus_value m = s"
  by (cases m) (auto simp: BookingStatus_call_def BookingStatus_members_def)
lemma OrderStatus_call_iff:
  "OrderStatus_call s = Some m \<longleftrightarrow> OrderStatus_value m = s"
  by (cases m) (auto simp: OrderStatus_call_def OrderStatus_members_def)


lemma BookingStatus_UNIV: "UNIV = set BookingStatus_members"
  using BookingStatus.exhaust by (auto simp: BookingStatus_members_def)

lemma OrderStatus_UNIV: "UNIV = set OrderStatus_members"
  using OrderStatus.exhaust by (auto simp: OrderStatus_members_def)

lemma OrderType_UNIV: "UNIV = set OrderType_members"
  using OrderType.exhaust by (auto simp: OrderType_members_def)

lemma PaymentStatus_UNIV: "UNIV = set PaymentStatus_members"
  using PaymentStatus.exhaust by (auto simp: PaymentStatus_members_def)

lemma BookingStatus_range:
  "range BookingStatus_value = {''pending'', ''confirmed'', ''cancelled'', ''completed''}"
  unfolding BookingStatus_UNIV by (simp add: BookingStatus_members_def)

lemma OrderStatus_range:
  "range OrderStatus_value =
     {''pending'', ''confirmed'', ''in_progress'', ''ready'', ''completed'', ''cancelled'',
      ''refunded''}"
  unfolding OrderStatus_UNIV by (simp add: OrderStatus_members_def)

lemma OrderType_range:
  "range OrderType_value =
     {''pickup'', ''delivery'', ''dine_in'', ''online'', ''in_store'', ''service''}"
  unfolding OrderType_UNIV by (simp add: OrderType_members_def)

lemma PaymentStatus_range:
  "range PaymentStatus_value = {''pending'', ''paid'', ''failed'', ''refunded''}"
  unfolding PaymentStatus_UNIV by (simp add: PaymentStatus_members_def)

lemma BookingStatus_call_None: "BookingStatus_call s = None \<longleftrightarrow> s \<notin> range BookingStatus_value"
  unfolding BookingStatus_call_def find_None_iff BookingStatus_UNIV by auto

lemma OrderStatus_call_None: "OrderStatus_call s = None \<longleftrightarrow> s \<notin> range OrderStatus_value"
  unfolding OrderStatus_call_def find_None_iff OrderStatus_UNIV by auto

lemma OrderType_call_None: "OrderType_call s = None \<longleftrightarrow> s \<notin> range OrderType_value"
  unfolding OrderType_call_def find_None_iff OrderType_UNIV by auto

lemma PaymentStatus_call_None: "PaymentStatus_call s = None \<longleftrightarrow> s \<notin> range PaymentStatus_value"
  unfolding PaymentStatus_call_def find_None_iff PaymentStatus_UNIV by auto

lemma Booking_status_decl:
  "map_of (model_fields Booking) ''status'' =
     Some (Plain TBookingStatus, Field'\<lparr>fdefault := Default (VBookingStatus BookingStatus_PENDING)\<rparr>)"
  by (simp add: Booking_def Booking_fields_def)

lemma Order_status_decl:
  "map_of (model_fields Order) ''status'' =
     Some (Plain TOrderStatus, Field'\<lparr>fdefault := Default (VOrderStatus OrderStatus_PENDING)\<rparr>)"
  by (simp add: Order_def Order_fields_def)

lemma Order_order_type_decl:
  "map_of (model_fields Order) ''order_type'' =
     Some (Plain TOrderType, Field'\<lparr>fdefault := Default (VOrderType OrderType_PICKUP)\<rparr>)"
  by (simp add: Order_def Order_fields_def)

lemma Order_payment_status_decl:
  "map_of (model_fields Order) ''payment_status'' =
     Some (Plain TPaymentStatus, Field'\<lparr>fdefault := Default (VPaymentStatus PaymentStatus_PENDING)\<rparr>)"
  by (simp add: Order_def Order_fields_def)

lemma Booking_status_str:
  "s \<notin> range BookingStatus_value \<Longrightarrow> validate_attr L Booking ''status'' (VStr s) = Inl EnumMember"
  by (simp add: validate_attr_def Booking_status_decl BookingStatus_call_None [symmetric])

lemma Order_status_str:
  "s \<notin> range OrderStatus_value \<Longrightarrow> validate_attr L Order ''status'' (VStr s) = Inl EnumMember"
  by (simp add: validate_attr_def Order_status_decl OrderStatus_call_None [symmetric])

lemma Order_order_type_str:
  "s \<notin> range OrderType_value \<Longrightarrow> validate_attr L Order ''order_type'' (VStr s) = Inl EnumMember"
  by (simp add: validate_attr_def Order_order_type_decl OrderType_call_None [symmetric])

lemma Order_payment_status_str:
  "s \<notin> range PaymentStatus_value
     \<Longrightarrow> validate_attr L Order ''payment_status'' (VStr s) = Inl EnumMember"
  by (simp add: validate_attr_def Order_payment_status_decl PaymentStatus_call_None [symmetric])

text \<open>
  Claim C3. The values of the four enumerations are exactly the listed strings, and for
  every field of an enumeration type (\<open>Booking.status\<close>, \<open>Order.status\<close>,
  \<open>Order.order_type\<close>, \<open>Order.payment_status\<close>) a string that is the value of no
  member is rejected by the check that the declaration of the field puts on a value.
\<close>

theorem enum_value_sets:
  "range BookingStatus_value = {''pending'', ''confirmed'', ''cancelled'', ''completed''}
   \<and> range OrderStatus_value =
       {''pending'', ''confirmed'', ''in_progress'', ''ready'', ''completed'', ''cancelled'',
        ''refunded''}
   \<and> range OrderType_value =
       {''pickup'', ''delivery'', ''dine_in'', ''online'', ''in_store'', ''service''}
   \<and> range PaymentStatus_value = {''pending'', ''paid'', ''failed'', ''refunded''}
   \<and> (\<forall>s. s \<notin> range BookingStatus_value
          \<longrightarrow> validate_attr L Booking ''status'' (VStr s) = Inl EnumMember)
   \<and> (\<forall>s. s \<notin> range OrderStatus_value
          \<longrightarrow> validate_attr L Order ''status'' (VStr s) = Inl EnumMember)
   \<and> (\<forall>s. s \<notin> range OrderType_value
          \<longrightarrow> validate_attr L Order ''order_type'' (VStr s) = Inl EnumMember)
   \<and> (\<forall>s. s \<notin> range PaymentStatus_value
          \<longrightarrow> validate_attr L Order ''payment_status'' (VStr s) = Inl EnumMember)"
  by (intro conjI allI impI)
    (rule BookingStatus_range OrderStatus_range OrderType_range PaymentStatus_range
      Booking_status_str Order_status_str Order_order_type_str Order_payment_status_str;
     assumption?)+

theorem enum_value_sets_witness:
  "''shipped'' \<notin> range BookingStatus_value
   \<and> validate_attr lib0 Booking ''status'' (VStr ''shipped'') = Inl EnumMember
   \<and> ''shipped'' \<notin> range OrderStatus_value
   \<and> validate_attr lib0 Order ''status'' (VStr ''shipped'') = Inl EnumMember
   \<and> ''mail'' \<notin> range OrderType_value
   \<and> validate_attr lib0 Order ''order_type'' (VStr ''mail'') = Inl EnumMember
   \<and> ''unpaid'' \<notin> range PaymentStatus_value
   \<and> validate_attr lib0 Order ''payment_status'' (VStr ''unpaid'') = Inl EnumMember"
proof -
  have a: "''shipped'' \<notin> range BookingStatus_value" by (simp add: BookingStatus_range)
  have b: "''shipped'' \<notin> range OrderStatus_value" by (simp add: OrderStatus_range)
  have c: "''mail'' \<notin> range OrderType_value" by (simp add: OrderType_range)
  have d: "''unpaid'' \<notin> range PaymentStatus_value" by (simp add: PaymentStatus_range)
  note r = enum_value_sets [of lib0]
  from r a have a': "validate_attr lib0 Booking ''status'' (VStr ''shipped'') = Inl EnumMember"
    by simp
  from r b have b': "validate_attr lib0 Order ''status'' (VStr ''shipped'') = Inl EnumMember"
    by simp
  from r c have c': "validate_attr lib0 Order ''order_type'' (VStr ''mail'') = Inl EnumMember"
    by simp
  from r d have d': "validate_attr lib0 Order ''payment_status'' (VStr ''unpaid'') = Inl EnumMember"
    by simp
  from a a' b b' c c' d d' show ?thesis by (intro conjI)
qed

lemma OrderType_call_iff:
  "OrderType_call s = Some m \<longleftrightarrow> OrderType_value m = s"
  by (cases m) (auto simp: OrderType_call_def OrderType_members_def)

lemma PaymentStatus_call_iff:
  "PaymentStatus_call s = Some m \<longleftrightarrow> PaymentStatus_value m = s"
  by (cases m) (auto simp: PaymentStatus_call_def PaymentStatus_members_def)

lemma validate_own_member:
  "validate_field L (Plain TBookingStatus) fi (VBookingStatus b) = Inr (VBookingStatus b)"
  "validate_field L (Plain TOrderStatus) fi (VOrderStatus s) = Inr (VOrderStatus s)"
  "validate_field L (Plain TOrderType) fi (VOrderType t) = Inr (VOrderType t)"
  "validate_field L (Plain TPaymentStatus) fi (VPaymentStatus p) = Inr (VPaymentStatus p)"
  using BookingStatus_call_iff [of "BookingStatus_value b" b]
    OrderStatus_call_iff [of "OrderStatus_value s" s]
    OrderType_call_iff [of "OrderType_value t" t]
    PaymentStatus_call_iff [of "PaymentStatus_value p" p]
  by simp_all

lemmas dec_eval = normalize_def check_decimal_def count_digits_def strip_zeros.simps ndigits.simps
  prec_def round_half_even_def Let_def

subsection \<open>Defaults and supplied values of a created order\<close>

lemma Order_default:
  assumes "create L Order en kw = Inr ob"
    and "map_of (model_fields Order) name = Some (ann, fi)" and "kw name = None"
  shows "case get_default en fi of
           None \<Rightarrow> ob name = Some VNone
         | Some dv \<Rightarrow> (\<exists>v. validate_field L ann fi dv = Inr v \<and> ob name = Some v)"
  using create_validated [OF assms(1) class_options(7) distinct_models(3) assms(2)] assms(3)
  by (auto simp: field_result_def init_value_def split: option.splits)

lemma Order_supplied:
  assumes "create L Order en kw = Inr ob"
    and "map_of (model_fields Order) name = Some (ann, fi)" and "kw name = Some v"
  shows "\<exists>v'. validate_field L ann fi v = Inr v' \<and> ob name = Some v'"
  using create_validated [OF assms(1) class_options(7) distinct_models(3) assms(2)] assms(3)
  by (auto simp: field_result_def init_value_def)

lemma Order_rejects:
  assumes "map_of (model_fields Order) name = Some (ann, fi)" and "kw name = Some v"
    and "validate_field L ann fi v = Inl e"
  shows "isl (create L Order en kw)"
proof -
  from assms(1) have mem: "(name, ann, fi) \<in> set (model_fields Order)" by (rule map_of_SomeD)
  from assms(2) have i: "init_value en kw (name, ann, fi) = Some v" by (simp add: init_value_def)
  from assms(3) have "isl (store L Order (name, ann, fi) v)"
    by (simp add: store_def class_options)
  with distinct_models(3) mem i show ?thesis by (rule create_fails)
qed

lemma Order_money_default_decl:
  "n \<in> {''tax_amount'', ''service_fee'', ''discount_amount'', ''tip_amount''} \<Longrightarrow>
   map_of (model_fields Order) n =
     Some (Plain TDecimal,
           Field'\<lparr>fdefault := Default (VInt 0), max_digits := Some 10, decimal_places := Some 2\<rparr>)"
  by (elim insertE emptyE; simp add: Order_def Order_fields_def)

lemma Order_country_decl:
  "map_of (model_fields Order) ''country'' =
     Some (Optional TStr, Field'\<lparr>max_length := Some 100, fdefault := Default (VStr ''US'')\<rparr>)"
  by (simp add: Order_def Order_fields_def)

lemma zero_default_validated:
  "validate_field L (Plain TDecimal)
     (Field'\<lparr>fdefault := Default (VInt 0), max_digits := Some 10, decimal_places := Some 2\<rparr>)
     (VInt 0)
   = Inr (VDecimal (Decimal False 0 0))"
  by (simp add: to_decimal_def dec_eval Field'_def)

lemma Order_money_default:
  assumes "create L Order en kw = Inr ob" and "kw n = None"
    and "n \<in> {''tax_amount'', ''service_fee'', ''discount_amount'', ''tip_amount''}"
  shows "ob n = Some (VDecimal (Decimal False 0 0))"
  using Order_default [OF assms(1) Order_money_default_decl [OF assms(3)] assms(2)]
  by (simp add: get_default_def zero_default_validated del: validate_field.simps)

lemma Order_status_default:
  assumes "create L Order en kw = Inr ob" and "kw ''status'' = None"
  shows "ob ''status'' = Some (VOrderStatus OrderStatus_PENDING)"
  using Order_default [OF assms(1) Order_status_decl assms(2)]
  by (simp add: get_default_def validate_own_member del: validate_field.simps)

lemma Order_payment_status_default:
  assumes "create L Order en kw = Inr ob" and "kw ''payment_status'' = None"
  shows "ob ''payment_status'' = Some (VPaymentStatus PaymentStatus_PENDING)"
  using Order_default [OF assms(1) Order_payment_status_decl assms(2)]
  by (simp add: get_default_def validate_own_member del: validate_field.simps)

lemma Order_order_type_default:
  assumes "create L Order en kw = Inr ob" and "kw ''order_type'' = None"
  shows "ob ''order_type'' = Some (VOrderType OrderType_PICKUP)"
  using Order_default [OF assms(1) Order_order_type_decl assms(2)]
  by (simp add: get_default_def validate_own_member del: validate_field.simps)

lemma Order_country_default:
  assumes "create L Order en kw = Inr ob" and "kw ''country'' = None"
  shows "ob ''country'' = Some (VStr ''US'')"
  using Order_default [OF assms(1) Order_country_decl assms(2)]
  by (simp add: get_default_def to_str_def Field'_def)

lemmas field_eval = field_result_def init_value_def get_default_def Field'_def to_str_def
  to_decimal_def to_uuid_def to_datetime_def to_float_def to_int_def
  BookingStatus_call_def BookingStatus_members_def OrderStatus_call_def OrderStatus_members_def
  OrderType_call_def OrderType_members_def PaymentStatus_call_def PaymentStatus_members_def

lemma Order_required_fields:
  "map fst (filter (\<lambda>f. get_default en (snd (snd f)) = None \<and> fst (snd f) = Plain (annotation_type (fst (snd f))))
      (model_fields Order))
     = [''customer_name'', ''email'', ''subtotal'', ''total_amount'']"
  by (simp add: Order_def Order_fields_def get_default_def Field'_def)

text \<open>
  Claim C2. An \<open>Order\<close> created from keywords for the required fields only
  (\<open>customer_name\<close>, \<open>email\<close>, \<open>subtotal\<close>, \<open>total_amount\<close>) has the declared defaults.
  The four amounts are the decimal \<open>0\<close>, which the validation of the assignment makes
  of the declared default \<open>0\<close> and which equals the decimal \<open>0.00\<close>; \<open>status\<close> and
  \<open>payment_status\<close> are the members with value \<open>pending\<close>, \<open>order_type\<close> is the member
  with value \<open>pickup\<close> and \<open>country\<close> is \<open>US\<close>.
\<close>

theorem Order_defaults:
  assumes "create L Order en kw = Inr ob"
    and "dom kw \<subseteq> {''customer_name'', ''email'', ''subtotal'', ''total_amount''}"
  shows "ob ''tax_amount'' = Some (VDecimal (Decimal False 0 0))
    \<and> ob ''service_fee'' = Some (VDecimal (Decimal False 0 0))
    \<and> ob ''discount_amount'' = Some (VDecimal (Decimal False 0 0))
    \<and> ob ''tip_amount'' = Some (VDecimal (Decimal False 0 0))
    \<and> py_eq (VDecimal (Decimal False 0 0)) (VDecimal (Decimal False 0 (- 2)))
    \<and> ob ''status'' = Some (VOrderStatus OrderStatus_PENDING)
    \<and> py_eq (VOrderStatus OrderStatus_PENDING) (VStr ''pending'')
    \<and> ob ''payment_status'' = Some (VPaymentStatus PaymentStatus_PENDING)
    \<and> py_eq (VPaymentStatus PaymentStatus_PENDING) (VStr ''pending'')
    \<and> ob ''order_type'' = Some (VOrderType OrderType_PICKUP)
    \<and> py_eq (VOrderType OrderType_PICKUP) (VStr ''pickup'')
    \<and> ob ''country'' = Some (VStr ''US'')"
proof -
  have none: "kw n = None"
    if "n \<notin> {''customer_name'', ''email'', ''subtotal'', ''total_amount''}" for n
    using that assms(2) by blast
  have k1: "kw ''tax_amount'' = None" by (rule none) simp
  have k2: "kw ''service_fee'' = None" by (rule none) simp
  have k3: "kw ''discount_amount'' = None" by (rule none) simp
  have k4: "kw ''tip_amount'' = None" by (rule none) simp
  have k5: "kw ''status'' = None" by (rule none) simp
  have k6: "kw ''payment_status'' = None" by (rule none) simp
  have k7: "kw ''order_type'' = None" by (rule none) simp
  have k8: "kw ''country'' = None" by (rule none) simp
  have e1: "py_eq (VDecimal (Decimal False 0 0)) (VDecimal (Decimal False 0 (- 2)))"
    by (simp add: py_eq_def)
  have e2: "py_eq (VOrderStatus OrderStatus_PENDING) (VStr ''pending'')" by (simp add: py_eq_def)
  have e3: "py_eq (VPaymentStatus PaymentStatus_PENDING) (VStr ''pending'')"
    by (simp add: py_eq_def)
  have e4: "py_eq (VOrderType OrderType_PICKUP) (VStr ''pickup'')" by (simp add: py_eq_def)
  show ?thesis
    using Order_money_default [OF assms(1) k1] Order_money_default [OF assms(1) k2]
      Order_money_default [OF assms(1) k3] Order_money_default [OF assms(1) k4]
      Order_status_default [OF assms(1) k5] Order_payment_status_default [OF assms(1) k6]
      Order_order_type_default [OF assms(1) k7] Order_country_default [OF assms(1) k8]
      e1 e2 e3 e4
    by simp
qed

lemma order_kw_fields:
  "\<forall>f \<in> set (model_fields Order). \<not> isl (field_result L env0 order_kw f)"
  by (simp add: Order_def Order_fields_def order_kw_def ten_def field_eval dec_eval)

lemma order_kw_ok: "\<exists>ob. create L Order env0 order_kw = Inr ob"
  using order_kw_fields
  by (simp add: create_Inr_iff [OF class_options(7) distinct_models(3)])

lemma spec_order_kw_ok: "\<exists>ob. create L Order env0 spec_order_kw = Inr ob"
  unfolding create_Inr_iff [OF class_options(7) distinct_models(3)]
  by (simp add: Order_def Order_fields_def spec_order_kw_def ten_def field_eval dec_eval)

theorem Order_defaults_witness:
  "(\<exists>ob. create lib0 Order env0 order_kw = Inr ob
     \<and> dom order_kw \<subseteq> {''customer_name'', ''email'', ''subtotal'', ''total_amount''}
     \<and> order_kw ''subtotal'' = Some (VDecimal (Decimal False 1000 (- 2)))
     \<and> order_kw ''total_amount'' = Some (VDecimal (Decimal False 1000 (- 2)))
     \<and> ob ''tax_amount'' = Some (VDecimal (Decimal False 0 0))
     \<and> ob ''service_fee'' = Some (VDecimal (Decimal False 0 0))
     \<and> ob ''discount_amount'' = Some (VDecimal (Decimal False 0 0))
     \<and> ob ''tip_amount'' = Some (VDecimal (Decimal False 0 0))
     \<and> ob ''status'' = Some (VOrderStatus OrderStatus_PENDING)
     \<and> ob ''payment_status'' = Some (VPaymentStatus PaymentStatus_PENDING)
     \<and> ob ''order_type'' = Some (VOrderType OrderType_PICKUP)
     \<and> ob ''country'' = Some (VStr ''US''))
   \<and> (\<exists>ob. create lib0 Order env0 spec_order_kw = Inr ob
     \<and> dom spec_order_kw \<subseteq> {''customer_name'', ''email'', ''subtotal'', ''total_amount''}
     \<and> ob ''tax_amount'' = Some (VDecimal (Decimal False 0 0))
     \<and> ob ''service_fee'' = Some (VDecimal (Decimal False 0 0))
     \<and> ob ''discount_amount'' = Some (VDecimal (Decimal False 0 0))
     \<and> ob ''tip_amount'' = Some (VDecimal (Decimal False 0 0))
     \<and> ob ''status'' = Some (VOrderStatus OrderStatus_PENDING)
     \<and> ob ''payment_status'' = Some (VPaymentStatus PaymentStatus_PENDING)
     \<and> ob ''order_type'' = Some (VOrderType OrderType_PICKUP)
     \<and> ob ''country'' = Some (VStr ''US''))"
proof (rule conjI)
  from order_kw_ok obtain ob where ob: "create lib0 Order env0 order_kw = Inr ob" ..
  have d: "dom order_kw \<subseteq> {''customer_name'', ''email'', ''subtotal'', ''total_amount''}"
    by (simp add: order_kw_def)
  have s: "order_kw ''subtotal'' = Some (VDecimal (Decimal False 1000 (- 2)))"
    "order_kw ''total_amount'' = Some (VDecimal (Decimal False 1000 (- 2)))"
    by (simp_all add: order_kw_def ten_def)
  note r = Order_defaults [OF ob d]
  show "\<exists>ob. create lib0 Order env0 order_kw = Inr ob
     \<and> dom order_kw \<subseteq> {''customer_name'', ''email'', ''subtotal'', ''total_amount''}
     \<and> order_kw ''subtotal'' = Some (VDecimal (Decimal False 1000 (- 2)))
     \<and> order_kw ''total_amount'' = Some (VDecimal (Decimal False 1000 (- 2)))
     \<and> ob ''tax_amount'' = Some (VDecimal (Decimal False 0 0))
     \<and> ob ''service_fee'' = Some (VDecimal (Decimal False 0 0))
     \<and> ob ''discount_amount'' = Some (VDecimal (Decimal False 0 0))
     \<and> ob ''tip_amount'' = Some (VDecimal (Decimal False 0 0))
     \<and> ob ''status'' = Some (VOrderStatus OrderStatus_PENDING)
     \<and> ob ''payment_status'' = Some (VPaymentStatus PaymentStatus_PENDING)
     \<and> ob ''order_type'' = Some (VOrderType OrderType_PICKUP)
     \<and> ob ''country'' = Some (VStr ''US'')"
    by (rule exI [of _ ob]) (simp add: ob d s r)
next
  from spec_order_kw_ok obtain ob where ob: "create lib0 Order env0 spec_order_kw = Inr ob" ..
  have d: "dom spec_order_kw \<subseteq> {''customer_name'', ''email'', ''subtotal'', ''total_amount''}"
    by (simp add: spec_order_kw_def)
  note r = Order_defaults [OF ob d]
  show "\<exists>ob. create lib0 Order env0 spec_order_kw = Inr ob
     \<and> dom spec_order_kw \<subseteq> {''customer_name'', ''email'', ''subtotal'', ''total_amount''}
     \<and> ob ''tax_amount'' = Some (VDecimal (Decimal False 0 0))
     \<and> ob ''service_fee'' = Some (VDecimal (Decimal False 0 0))
     \<and> ob ''discount_amount'' = Some (VDecimal (Decimal False 0 0))
     \<and> ob ''tip_amount'' = Some (VDecimal (Decimal False 0 0))
     \<and> ob ''status'' = Some (VOrderStatus OrderStatus_PENDING)
     \<and> ob ''payment_status'' = Some (VPaymentStatus PaymentStatus_PENDING)
     \<and> ob ''order_type'' = Some (VOrderType OrderType_PICKUP)
     \<and> ob ''country'' = Some (VStr ''US'')"
    by (rule exI [of _ ob]) (simp add: ob d r)
qed

subsection \<open>Guest bookings and orders\<close>

lemma Booking_user_id_decl:
  "map_of (model_fields Booking) ''user_id'' =
     Some (Optional TUUID, Field'\<lparr>fdefault := Default VNone, foreign_key := Some ''user.id''\<rparr>)"
  by (simp add: Booking_def Booking_fields_def)

lemma Order_user_id_decl:
  "map_of (model_fields Order) ''user_id'' =
     Some (Optional TUUID, Field'\<lparr>fdefault := Default VNone, foreign_key := Some ''user.id''\<rparr>)"
  by (simp add: Order_def Order_fields_def)

lemma Booking_guest:
  assumes "kw ''user_id'' = None"
  shows "\<exists>ob. create L Booking en kw = Inr ob \<and> ob ''user_id'' = Some VNone"
proof -
  from create_raw [OF class_options(6) distinct_models(2)] obtain ob
    where ob: "create L Booking en kw = Inr ob"
      and all: "\<forall>f \<in> set (model_fields Booking). ob (fst f) = Some (raw_value en kw f)"
    by blast
  from Booking_user_id_decl
  have "(''user_id'', Optional TUUID,
         Field'\<lparr>fdefault := Default VNone, foreign_key := Some ''user.id''\<rparr>)
          \<in> set (model_fields Booking)"
    by (rule map_of_SomeD)
  with all assms have "ob ''user_id'' = Some VNone"
    by (force simp: raw_value_def init_value_def get_default_def)
  with ob show ?thesis by blast
qed

lemma Order_guest:
  assumes "kw ''user_id'' = None"
    and "\<forall>f \<in> set (model_fields Order). fst f \<noteq> ''user_id'' \<longrightarrow> \<not> isl (field_result L en kw f)"
  shows "\<exists>ob. create L Order en kw = Inr ob \<and> ob ''user_id'' = Some VNone"
proof -
  have "\<not> isl (field_result L en kw f)" if f: "f \<in> set (model_fields Order)" for f
  proof (cases "fst f = ''user_id''")
    case True
    from Order_user_id_decl
    have "(''user_id'', Optional TUUID,
           Field'\<lparr>fdefault := Default VNone, foreign_key := Some ''user.id''\<rparr>)
            \<in> set (model_fields Order)"
      by (rule map_of_SomeD)
    from same_name_same_field [OF distinct_models(3) this f] True
    have "f = (''user_id'', Optional TUUID,
               Field'\<lparr>fdefault := Default VNone, foreign_key := Some ''user.id''\<rparr>)"
      by simp
    with assms(1) show ?thesis by (simp add: field_result_def init_value_def get_default_def)
  next
    case False
    with assms(2) f show ?thesis by blast
  qed
  then have "\<exists>ob. create L Order en kw = Inr ob"
    by (simp add: create_Inr_iff [OF class_options(7) distinct_models(3)])
  then obtain ob where ob: "create L Order en kw = Inr ob" ..
  from Order_default [OF ob Order_user_id_decl assms(1)]
  have "ob ''user_id'' = Some VNone" by (simp add: get_default_def)
  with ob show ?thesis by blast
qed

text \<open>
  Claim C7. \<open>user_id\<close> is declared \<open>Optional\<close> with default \<open>None\<close> in \<open>Booking\<close> and
  in \<open>Order\<close>. The creation of a \<open>Booking\<close> without it succeeds and the object stores
  \<open>None\<close> as its \<open>user_id\<close>. The creation of an \<open>Order\<close> without it succeeds, and the
  object stores \<open>None\<close>, when the validation accepts what the other fields are assigned.
\<close>

theorem guest_user_id:
  "(kw ''user_id'' = None
      \<longrightarrow> (\<exists>ob. create L Booking en kw = Inr ob \<and> ob ''user_id'' = Some VNone))
   \<and> (kw' ''user_id'' = None
      \<and> (\<forall>f \<in> set (model_fields Order).
            fst f \<noteq> ''user_id'' \<longrightarrow> \<not> isl (field_result L en' kw' f))
      \<longrightarrow> (\<exists>ob. create L Order en' kw' = Inr ob \<and> ob ''user_id'' = Some VNone))"
proof (intro conjI impI)
  assume "kw ''user_id'' = None"
  then show "\<exists>ob. create L Booking en kw = Inr ob \<and> ob ''user_id'' = Some VNone"
    by (rule Booking_guest)
next
  assume a: "kw' ''user_id'' = None
      \<and> (\<forall>f \<in> set (model_fields Order).
            fst f \<noteq> ''user_id'' \<longrightarrow> \<not> isl (field_result L en' kw' f))"
  from a have a1: "kw' ''user_id'' = None" by (rule conjunct1)
  from a have a2: "\<forall>f \<in> set (model_fields Order).
            fst f \<noteq> ''user_id'' \<longrightarrow> \<not> isl (field_result L en' kw' f)" by (rule conjunct2)
  from a1 a2 show "\<exists>ob. create L Order en' kw' = Inr ob \<and> ob ''user_id'' = Some VNone"
    by (rule Order_guest)
qed

theorem guest_user_id_witness:
  "booking_kw ''user_id'' = None
   \<and> (\<exists>ob. create lib0 Booking env0 booking_kw = Inr ob \<and> ob ''user_id'' = Some VNone)
   \<and> order_kw ''user_id'' = None
   \<and> (\<exists>ob. create lib0 Order env0 order_kw = Inr ob \<and> ob ''user_id'' = Some VNone)"
proof -
  have b: "booking_kw ''user_id'' = None" by (simp add: booking_kw_def)
  have c: "order_kw ''user_id'' = None" by (simp add: order_kw_def)
  have f: "\<forall>f \<in> set (model_fields Order).
             fst f \<noteq> ''user_id'' \<longrightarrow> \<not> isl (field_result lib0 env0 order_kw f)"
    using order_kw_fields [of lib0] by blast
  note r = guest_user_id [of booking_kw lib0 env0 order_kw env0]
  from r b
  have r1: "\<exists>ob. create lib0 Booking env0 booking_kw = Inr ob \<and> ob ''user_id'' = Some VNone"
    by (simp only: simp_thms)
  from r c f
  have r2: "\<exists>ob. create lib0 Order env0 order_kw = Inr ob \<and> ob ''user_id'' = Some VNone"
    by (simp only: simp_thms)
  from b c r1 r2 show ?thesis by (simp only: simp_thms)
qed

subsection \<open>Status and payment status of an order\<close>

lemma create_override:
  assumes "create L Order en kw = Inr ob"
    and "map_of (model_fields Order) name = Some (ann, fi)"
    and "validate_field L ann fi v = Inr v'"
  shows "\<exists>ob'. create L Order en (kw(name \<mapsto> v)) = Inr ob'"
proof -
  note iff = create_Inr_iff [OF class_options(7) distinct_models(3)]
  from assms(1) have all: "\<forall>f \<in> set (model_fields Order). \<not> isl (field_result L en kw f)"
    using iff by blast
  from assms(2) have mem: "(name, ann, fi) \<in> set (model_fields Order)" by (rule map_of_SomeD)
  have "\<not> isl (field_result L en (kw(name \<mapsto> v)) f)" if f: "f \<in> set (model_fields Order)" for f
  proof (cases "fst f = name")
    case True
    from same_name_same_field [OF distinct_models(3) mem f] True have "f = (name, ann, fi)"
      by simp
    with assms(3) show ?thesis by (simp add: field_result_def init_value_def)
  next
    case False
    then have "field_result L en (kw(name \<mapsto> v)) f = field_result L en kw f"
      by (simp add: field_result_def init_value_def)
    with all f show ?thesis by simp
  qed
  then show ?thesis by (simp add: iff)
qed

lemma Order_any_pair:
  assumes "create L Order en kw = Inr ob"
  shows "\<exists>ob'. create L Order en (kw(''status'' \<mapsto> VOrderStatus s,
                                      ''payment_status'' \<mapsto> VPaymentStatus p)) = Inr ob'
           \<and> ob' ''status'' = Some (VOrderStatus s)
           \<and> ob' ''payment_status'' = Some (VPaymentStatus p)"
proof -
  let ?kw1 = "kw(''status'' \<mapsto> VOrderStatus s)"
  let ?kw2 = "?kw1(''payment_status'' \<mapsto> VPaymentStatus p)"
  from create_override [OF assms Order_status_decl validate_own_member(2)]
  obtain ob1 where ob1: "create L Order en ?kw1 = Inr ob1" ..
  from create_override [OF ob1 Order_payment_status_decl validate_own_member(4)]
  obtain ob2 where ob2: "create L Order en ?kw2 = Inr ob2" ..
  have k1: "?kw2 ''status'' = Some (VOrderStatus s)" by simp
  have k2: "?kw2 ''payment_status'' = Some (VPaymentStatus p)" by simp
  from Order_supplied [OF ob2 Order_status_decl k1]
  have s1: "ob2 ''status'' = Some (VOrderStatus s)"
    by (auto simp: validate_own_member simp del: validate_field.simps)
  from Order_supplied [OF ob2 Order_payment_status_decl k2]
  have s2: "ob2 ''payment_status'' = Some (VPaymentStatus p)"
    by (auto simp: validate_own_member simp del: validate_field.simps)
  from ob2 s1 s2 show ?thesis by blast
qed

lemma setattr_Order_status:
  "setattr L Order ob ''status'' (VOrderStatus s) = Inr (ob(''status'' \<mapsto> VOrderStatus s))"
  unfolding setattr_def Order_status_decl
  by (simp add: class_options validate_own_member del: validate_field.simps)

lemma setattr_Order_payment_status:
  "setattr L Order ob ''payment_status'' (VPaymentStatus p)
     = Inr (ob(''payment_status'' \<mapsto> VPaymentStatus p))"
  unfolding setattr_def Order_payment_status_decl
  by (simp add: class_options validate_own_member del: validate_field.simps)

text \<open>
  Claim C6. Assigning any member of \<open>OrderStatus\<close> to \<open>status\<close> of an order succeeds and
  changes \<open>status\<close> only, so \<open>payment_status\<close> is what it was; assigning any member of
  \<open>PaymentStatus\<close> to \<open>payment_status\<close> succeeds and leaves \<open>status\<close> as it was. Every
  pair of a status and a payment status is the state of an order: wherever an order can
  be created, it can be created with that pair.
\<close>

theorem Order_status_independent:
  "(\<exists>ob'. setattr L Order ob ''status'' (VOrderStatus s) = Inr ob'
          \<and> ob' ''status'' = Some (VOrderStatus s)
          \<and> ob' ''payment_status'' = ob ''payment_status'')
   \<and> (\<exists>ob'. setattr L Order ob ''payment_status'' (VPaymentStatus p) = Inr ob'
          \<and> ob' ''payment_status'' = Some (VPaymentStatus p)
          \<and> ob' ''status'' = ob ''status'')
   \<and> (create L Order en kw = Inr ob0
        \<longrightarrow> (\<exists>ob'. create L Order en (kw(''status'' \<mapsto> VOrderStatus s,
                                         ''payment_status'' \<mapsto> VPaymentStatus p)) = Inr ob'
              \<and> ob' ''status'' = Some (VOrderStatus s)
              \<and> ob' ''payment_status'' = Some (VPaymentStatus p)))"
proof (intro conjI impI)
  show "\<exists>ob'. setattr L Order ob ''status'' (VOrderStatus s) = Inr ob'
          \<and> ob' ''status'' = Some (VOrderStatus s)
          \<and> ob' ''payment_status'' = ob ''payment_status''"
    by (rule exI [of _ "ob(''status'' \<mapsto> VOrderStatus s)"]) (simp add: setattr_Order_status)
next
  show "\<exists>ob'. setattr L Order ob ''payment_status'' (VPaymentStatus p) = Inr ob'
          \<and> ob' ''payment_status'' = Some (VPaymentStatus p)
          \<and> ob' ''status'' = ob ''status''"
    by (rule exI [of _ "ob(''payment_status'' \<mapsto> VPaymentStatus p)"])
      (simp add: setattr_Order_payment_status)
next
  assume "create L Order en kw = Inr ob0"
  then show "\<exists>ob'. create L Order en (kw(''status'' \<mapsto> VOrderStatus s,
                                         ''payment_status'' \<mapsto> VPaymentStatus p)) = Inr ob'
              \<and> ob' ''status'' = Some (VOrderStatus s)
              \<and> ob' ''payment_status'' = Some (VPaymentStatus p)"
    by (rule Order_any_pair)
qed

theorem Order_status_independent_witness:
  "\<exists>ob0. create lib0 Order env0 order_kw = Inr ob0
     \<and> (\<exists>ob'. setattr lib0 Order ob0 ''status'' (VOrderStatus OrderStatus_COMPLETED) = Inr ob'
            \<and> ob' ''status'' = Some (VOrderStatus OrderStatus_COMPLETED)
            \<and> ob' ''payment_status'' = ob0 ''payment_status'')
     \<and> (\<exists>ob'. create lib0 Order env0
                 (order_kw(''status'' \<mapsto> VOrderStatus OrderStatus_COMPLETED,
                           ''payment_status'' \<mapsto> VPaymentStatus PaymentStatus_FAILED)) = Inr ob'
            \<and> ob' ''status'' = Some (VOrderStatus OrderStatus_COMPLETED)
            \<and> ob' ''payment_status'' = Some (VPaymentStatus PaymentStatus_FAILED))"
proof -
  from order_kw_ok obtain ob0 where ob0: "create lib0 Order env0 order_kw = Inr ob0" ..
  note r = Order_status_independent
    [of lib0 ob0 OrderStatus_COMPLETED PaymentStatus_FAILED env0 order_kw ob0]
  from r have r1: "\<exists>ob'. setattr lib0 Order ob0 ''status'' (VOrderStatus OrderStatus_COMPLETED) = Inr ob'
            \<and> ob' ''status'' = Some (VOrderStatus OrderStatus_COMPLETED)
            \<and> ob' ''payment_status'' = ob0 ''payment_status''"
    by (rule conjunct1)
  from r ob0 have r2: "\<exists>ob'. create lib0 Order env0
                 (order_kw(''status'' \<mapsto> VOrderStatus OrderStatus_COMPLETED,
                           ''payment_status'' \<mapsto> VPaymentStatus PaymentStatus_FAILED)) = Inr ob'
            \<and> ob' ''status'' = Some (VOrderStatus OrderStatus_COMPLETED)
            \<and> ob' ''payment_status'' = Some (VPaymentStatus PaymentStatus_FAILED)"
    by (simp only: simp_thms)
  show ?thesis
    by (rule exI [of _ ob0]) (rule conjI [OF ob0 conjI [OF r1 r2]])
qed

subsection \<open>Digits and values of decimals\<close>

lemma ndigits_bound: "n < 10 ^ ndigits n"
proof (induction n rule: ndigits.induct)
  case (1 n)
  show ?case
  proof (cases "n < 10")
    case True
    then show ?thesis by (simp add: ndigits.simps)
  next
    case False
    with 1 have "n div 10 < 10 ^ ndigits (n div 10)" by simp
    then have "n < 10 * 10 ^ ndigits (n div 10)" by linarith
    with False show ?thesis by (simp add: ndigits.simps [of n])
  qed
qed

lemma ndigits_pos: "0 < ndigits n"
  by (subst ndigits.simps) simp

lemma pow10_pos: "0 < pow10 e"
  by simp

lemma pow10_times_100: "- 2 \<le> e \<Longrightarrow> pow10 e * 100 \<in> \<int>"
proof -
  assume "- 2 \<le> e"
  then consider "0 \<le> e" | "e = - 1" | "e = - 2" by linarith
  then show ?thesis
  proof cases
    case 1
    then show ?thesis by simp
  next
    case 2
    then show ?thesis by simp
  next
    case 3
    then show ?thesis by simp
  qed
qed

lemma count_digits_bound:
  assumes "count_digits c e = (digits, decimals)" and "digits - decimals \<le> w"
  shows "of_nat c * pow10 e < (10::rat) ^ w"
proof -
  have c: "c < 10 ^ ndigits c" by (rule ndigits_bound)
  show ?thesis
  proof (cases "0 \<le> e")
    case True
    with assms have le: "ndigits c + nat e \<le> w" by (auto simp: count_digits_def)
    from c have "c * 10 ^ nat e < 10 ^ ndigits c * 10 ^ nat e" by simp
    also have "\<dots> = 10 ^ (ndigits c + nat e)" by (simp add: power_add)
    also from le have "\<dots> \<le> 10 ^ w" by (simp add: power_increasing)
    finally have "c * 10 ^ nat e < 10 ^ w" .
    then have "(of_nat (c * 10 ^ nat e) :: rat) < of_nat (10 ^ w)" by (simp only: of_nat_less_iff)
    with True show ?thesis by simp
  next
    case False
    define k where "k = nat (- e)"
    have "c < 10 ^ (w + k)"
    proof (cases "ndigits c < k")
      case True
      with c have "c < 10 ^ k"
        by (meson less_le_trans less_imp_le power_increasing one_le_numeral)
      also have "\<dots> \<le> 10 ^ (w + k)" by (simp add: power_increasing)
      finally show ?thesis .
    next
      case ge: False
      with False assms have "ndigits c - k \<le> w" by (auto simp: count_digits_def k_def)
      with ge have "ndigits c \<le> w + k" by linarith
      then have "(10::nat) ^ ndigits c \<le> 10 ^ (w + k)" by (simp add: power_increasing)
      with c show ?thesis by linarith
    qed
    then have "(of_nat c :: rat) < of_nat (10 ^ (w + k))" by (simp only: of_nat_less_iff)
    then have "(of_nat c :: rat) < 10 ^ w * 10 ^ k" by (simp add: power_add)
    then have "(of_nat c :: rat) / 10 ^ k < 10 ^ w" by (simp add: pos_divide_less_eq)
    with False show ?thesis by (simp add: k_def)
  qed
qed


lemma pow10_step: "pow10 (e + 1) = 10 * pow10 e"
proof -
  consider "0 \<le> e" | "e = - 1" | "e < - 1" by linarith
  then show ?thesis
  proof cases
    case 1
    then have "nat (e + 1) = Suc (nat e)" by simp
    with 1 show ?thesis by simp
  next
    case 2
    then show ?thesis by simp
  next
    case 3
    then have "nat (- e) = Suc (nat (- (e + 1)))" by simp
    with 3 show ?thesis by simp
  qed
qed

lemma strip_zeros_value:
  "strip_zeros c e = (c2, e2) \<Longrightarrow> of_nat c2 * pow10 e2 = of_nat c * pow10 e"
proof (induction c e rule: strip_zeros.induct)
  case (1 c e)
  show ?case
  proof (cases "c \<noteq> 0 \<and> c mod 10 = 0")
    case True
    with "1.prems" have "strip_zeros (c div 10) (e + 1) = (c2, e2)"
      by (simp add: strip_zeros.simps [of c e])
    with "1.IH" True have "of_nat c2 * pow10 e2 = of_nat (c div 10) * pow10 (e + 1)" by blast
    also have "\<dots> = (of_nat (c div 10) * 10) * pow10 e" by (simp only: pow10_step mult.assoc)
    also from True have "(of_nat (c div 10) * 10 :: rat) = of_nat c"
      by (metis mod_0_imp_dvd dvd_div_mult_self of_nat_mult of_nat_numeral)
    finally show ?thesis .
  next
    case False
    with "1.prems" have "c2 = c" and "e2 = e"
      by (auto simp: strip_zeros.simps [of c e] split: if_splits)
    then show ?thesis by simp
  qed
qed

lemma normalize_finite:
  "\<exists>c2 e2. normalize (Decimal sg c e) = Decimal sg c2 e2
     \<and> (\<forall>sg'. normalize (Decimal sg' c e) = Decimal sg' c2 e2)"
  by (simp add: normalize_def Let_def split: prod.splits)

lemma normalize_value:
  assumes "ndigits c \<le> prec"
  shows "dec_value (normalize (Decimal sg c e)) = dec_value (Decimal sg c e)"
proof -
  obtain c2 e2 where s: "strip_zeros c e = (c2, e2)" by force
  from strip_zeros_value [OF s] have v: "of_nat c2 * pow10 e2 = of_nat c * pow10 e" .
  show ?thesis
  proof (cases "c2 = 0")
    case True
    with v have "of_nat c * pow10 e = (0::rat)" by simp
    with True s assms show ?thesis by (simp add: normalize_def del: pow10.simps)
  next
    case False
    with s assms v show ?thesis by (simp add: normalize_def mult.assoc del: pow10.simps)
  qed
qed

lemma snd_count_digits: "snd (count_digits c e) = (if 0 \<le> e then 0 else nat (- e))"
  by (simp add: count_digits_def)

lemma cents_integral:
  assumes "- 2 \<le> e"
  shows "(if sg then - 1 else 1) * of_nat c * pow10 e * 100 \<in> \<int>"
proof -
  have "(if sg then - 1 else 1) * of_nat c * pow10 e * 100
          = ((if sg then - 1 else 1) * of_nat c) * (pow10 e * 100)"
    by (simp only: mult.assoc)
  moreover have "((if sg then - 1 else 1) * of_nat c :: rat) \<in> \<int>" by simp
  moreover from assms have "pow10 e * 100 \<in> \<int>" by (rule pow10_times_100)
  ultimately show ?thesis by (simp only: Ints_mult)
qed

lemma check_decimal_accepts:
  assumes "max_digits fi = Some m" and "decimal_places fi = Some p"
    and "check_decimal fi (Decimal sg c e) = Inr d'"
    and "normalize (Decimal sg c e) = Decimal sg c2 e2"
  shows "of_nat c * pow10 e < (10::rat) ^ (m - p)"
    and "\<not> (p < snd (count_digits c e) \<and> p < snd (count_digits c2 e2))"
proof -
  obtain digits decimals where cd: "count_digits c e = (digits, decimals)" by force
  obtain nd ndec where cn: "count_digits c2 e2 = (nd, ndec)" by force
  from assms cd cn have dec: "\<not> (p < decimals \<and> p < ndec)" and wh: "digits - decimals \<le> m - p"
    by (auto simp: check_decimal_def split: if_splits)
  from count_digits_bound [OF cd wh] show "of_nat c * pow10 e < (10::rat) ^ (m - p)" .
  from dec cd cn show "\<not> (p < snd (count_digits c e) \<and> p < snd (count_digits c2 e2))" by simp
qed

lemma decimal_10_2_rejects:
  assumes "max_digits fi = Some 10" and "decimal_places fi = Some 2"
    and "dec_value d = Some v" and "ndigits (dec_coeff d) \<le> prec"
    and "v * 100 \<notin> \<int> \<or> 10 ^ 8 \<le> \<bar>v\<bar>"
  shows "isl (check_decimal fi d)"
proof (rule ccontr)
  assume n: "\<not> isl (check_decimal fi d)"
  from assms(3) obtain sg c e where d: "d = Decimal sg c e" by (cases d) simp_all
  from n d obtain d' where ok: "check_decimal fi (Decimal sg c e) = Inr d'"
    by (cases "check_decimal fi (Decimal sg c e)") simp_all
  from normalize_finite [of sg c e] obtain c2 e2
    where nm: "normalize (Decimal sg c e) = Decimal sg c2 e2" by blast
  note acc = check_decimal_accepts [OF assms(1,2) ok nm]
  from assms(3) d have v: "v = (if sg then - 1 else 1) * of_nat c * pow10 e" by simp
  have "0 < pow10 e" by (rule pow10_pos)
  then have "\<bar>v\<bar> = of_nat c * pow10 e" by (simp add: v abs_mult del: pow10.simps)
  with acc(1) have small: "\<bar>v\<bar> < 10 ^ 8" by (simp del: pow10.simps)
  with assms(5) have frac: "v * 100 \<notin> \<int>" by simp
  have e: "e < - 2"
  proof (rule ccontr)
    assume "\<not> e < - 2"
    then have "- 2 \<le> e" by simp
    from cents_integral [OF this, of sg c] v frac show False by simp
  qed
  from assms(4) d have "ndigits c \<le> prec" by simp
  from normalize_value [OF this, of sg e] nm d assms(3)
  have "dec_value (Decimal sg c2 e2) = Some v" by (simp del: dec_value.simps)
  then have v2: "v = (if sg then - 1 else 1) * of_nat c2 * pow10 e2"
    by (simp del: pow10.simps)
  have e2: "e2 < - 2"
  proof (rule ccontr)
    assume "\<not> e2 < - 2"
    then have "- 2 \<le> e2" by simp
    from cents_integral [OF this, of sg c2] v2 frac show False by simp
  qed
  from e have "2 < nat (- e)" by linarith
  moreover from e2 have "2 < nat (- e2)" by linarith
  ultimately show False using e e2 acc(2) by (simp add: snd_count_digits)
qed

lemma check_decimal_sign:
  "isl (check_decimal fi (Decimal True c e)) = isl (check_decimal fi (Decimal False c e))"
proof -
  from normalize_finite [of True c e] obtain c2 e2
    where "normalize (Decimal True c e) = Decimal True c2 e2"
      and "normalize (Decimal False c e) = Decimal False c2 e2"
    by blast
  then show ?thesis
    by (simp add: check_decimal_def split: prod.splits option.splits)
qed

lemma validate_decimal_sign:
  "isl (validate_field L (Plain TDecimal) fi (VDecimal (Decimal True c e)))
     = isl (validate_field L (Plain TDecimal) fi (VDecimal (Decimal False c e)))"
  using check_decimal_sign [of fi c e] by (auto simp: to_decimal_def split: sum.splits)

lemma minus_one_accepted:
  assumes "max_digits fi = Some 10" and "decimal_places fi = Some 2"
  shows "validate_field L (Plain TDecimal) fi (VDecimal (Decimal True 100 (- 2)))
           = Inr (VDecimal (Decimal True 100 (- 2)))"
  using assms by (simp add: to_decimal_def dec_eval)

lemma decimal_field_rejects:
  assumes "max_digits fi = Some 10" and "decimal_places fi = Some 2"
    and "dec_value d = Some v" and "ndigits (dec_coeff d) \<le> prec"
    and "v * 100 \<notin> \<int> \<or> 10 ^ 8 \<le> \<bar>v\<bar>"
  shows "isl (validate_field L (Plain TDecimal) fi (VDecimal d))"
  using decimal_10_2_rejects [OF assms] by (auto simp: to_decimal_def split: sum.splits)

lemma odd_half_not_int: "(of_int (2 * k + 1) / 2 :: rat) \<notin> \<int>"
proof
  assume "(of_int (2 * k + 1) / 2 :: rat) \<in> \<int>"
  then obtain z where "(of_int (2 * k + 1) / 2 :: rat) = of_int z" by (rule Ints_cases)
  then have "(of_int (2 * k + 1) :: rat) = of_int (2 * z)" by (simp add: field_simps)
  then have "2 * k + 1 = 2 * z" by (simp only: of_int_eq_iff)
  then show False by presburger
qed

lemma two_power_mod_5: "(2::int) ^ k mod 5 \<noteq> 0"
proof (induction k)
  case 0
  show ?case by simp
next
  case (Suc k)
  have "(2::int) ^ Suc k = 2 * 2 ^ k" by simp
  moreover from Suc have "(2 * (2::int) ^ k) mod 5 \<noteq> 0" by presburger
  ultimately show ?case by simp
qed

lemma no_float_is_a_tenth: "float_value (Float m e) \<noteq> Some (1 / 10)"
proof
  assume "float_value (Float m e) = Some (1 / 10)"
  then have eq: "of_int m * pow2 e = (1 / 10 :: rat)" by simp
  show False
  proof (cases "0 \<le> e")
    case True
    with eq have "(of_int (10 * (m * 2 ^ nat e)) :: rat) = of_int 1" by simp
    then have "10 * (m * 2 ^ nat e) = 1" by (simp only: of_int_eq_iff)
    then show False by presburger
  next
    case False
    then have p: "pow2 e = 1 / 2 ^ nat (- e)" by simp
    have "(of_int m :: rat) * 10 = 2 ^ nat (- e)"
      using eq unfolding p by (simp add: field_simps)
    then have "(of_int (10 * m) :: rat) = of_int (2 ^ nat (- e))" by (simp add: mult.commute)
    then have "10 * m = 2 ^ nat (- e)" by (simp only: of_int_eq_iff)
    then have "(2::int) ^ nat (- e) mod 5 = 0" by presburger
    with two_power_mod_5 [of "nat (- e)"] show False by simp
  qed
qed

subsection \<open>Validation on assignment\<close>

lemma setattr_Order:
  "setattr L Order ob name v =
     (case map_of (model_fields Order) name of
        None \<Rightarrow> Inl (NoSuchField, ob)
      | Some d \<Rightarrow>
          (case validate_attr L Order name v of
             Inl e \<Rightarrow> Inl (e, ob(name \<mapsto> v))
           | Inr v' \<Rightarrow> Inr (ob(name \<mapsto> v'))))"
  by (simp add: setattr_def validate_attr_def class_options split: option.splits prod.splits)











subsection \<open>No validation on assignment outside \<open>Order\<close>\<close>

lemma setattr_unvalidated:
  assumes "\<not> validate_assignment cls" and "map_of (model_fields cls) name = Some d"
  shows "setattr L cls ob name v = Inr (ob(name \<mapsto> v))"
  using assms by (cases d) (simp add: setattr_def)

text \<open>
  Claim C9. \<open>Order\<close> is the only class that declares \<open>validate_assignment\<close>. An
  assignment to a declared field of a \<open>User\<close>, a \<open>Booking\<close> or an \<open>OrderItem\<close> stores the
  value as it is, whatever the declaration of the field says about it; so a string longer
  than a declared \<open>max_length\<close> is stored.
\<close>

theorem others_do_not_validate_assignment:
  "\<not> validate_assignment User \<and> \<not> validate_assignment Booking
   \<and> \<not> validate_assignment OrderItem \<and> validate_assignment Order
   \<and> (cls \<in> {User, Booking, OrderItem} \<and> map_of (model_fields cls) name = Some d
        \<longrightarrow> setattr L cls ob name v = Inr (ob(name \<mapsto> v)))"
proof (intro conjI impI)
  show "\<not> validate_assignment User" by (rule class_options)
  show "\<not> validate_assignment Booking" by (rule class_options)
  show "\<not> validate_assignment OrderItem" by (rule class_options)
  show "validate_assignment Order" by (rule class_options)
next
  assume a: "cls \<in> {User, Booking, OrderItem} \<and> map_of (model_fields cls) name = Some d"
  then have "cls = User \<or> cls = Booking \<or> cls = OrderItem" by simp
  then have "\<not> validate_assignment cls" by (auto simp: class_options)
  moreover from a have "map_of (model_fields cls) name = Some d" by (rule conjunct2)
  ultimately show "setattr L cls ob name v = Inr (ob(name \<mapsto> v))" by (rule setattr_unvalidated)
qed

lemma User_role_decl:
  "map_of (model_fields User) ''role'' = Some (Plain TStr, Field'\<lparr>max_length := Some 5\<rparr>)"
  by (simp add: User_def User_fields_def)

lemma Booking_client_name_decl:
  "map_of (model_fields Booking) ''client_name'' =
     Some (Plain TStr, Field'\<lparr>max_length := Some 255\<rparr>)"
  by (simp add: Booking_def Booking_fields_def)

lemma OrderItem_item_name_decl:
  "map_of (model_fields OrderItem) ''item_name'' =
     Some (Plain TStr, Field'\<lparr>max_length := Some 255\<rparr>)"
  by (simp add: OrderItem_def OrderItem_fields_def)

theorem others_do_not_validate_assignment_witness:
  "validate_attr lib0 User ''role'' (VStr ''administrator'') = Inl (AnyStrMaxLength 5)
   \<and> setattr lib0 User Map.empty ''role'' (VStr ''administrator'')
       = Inr [''role'' \<mapsto> VStr ''administrator'']
   \<and> validate_attr lib0 Booking ''client_name'' (VStr (replicate 256 CHR ''a''))
       = Inl (AnyStrMaxLength 255)
   \<and> setattr lib0 Booking Map.empty ''client_name'' (VStr (replicate 256 CHR ''a''))
       = Inr [''client_name'' \<mapsto> VStr (replicate 256 CHR ''a'')]
   \<and> validate_attr lib0 OrderItem ''item_name'' (VStr (replicate 256 CHR ''a''))
       = Inl (AnyStrMaxLength 255)
   \<and> setattr lib0 OrderItem Map.empty ''item_name'' (VStr (replicate 256 CHR ''a''))
       = Inr [''item_name'' \<mapsto> VStr (replicate 256 CHR ''a'')]"
proof -
  have v1: "validate_attr lib0 User ''role'' (VStr ''administrator'') = Inl (AnyStrMaxLength 5)"
    by (simp add: validate_attr_def User_role_decl to_str_def)
  have v2: "validate_attr lib0 Booking ''client_name'' (VStr (replicate 256 CHR ''a''))
       = Inl (AnyStrMaxLength 255)"
    by (simp add: validate_attr_def Booking_client_name_decl to_str_def)
  have v3: "validate_attr lib0 OrderItem ''item_name'' (VStr (replicate 256 CHR ''a''))
       = Inl (AnyStrMaxLength 255)"
    by (simp add: validate_attr_def OrderItem_item_name_decl to_str_def)
  from others_do_not_validate_assignment
    [of User "''role''" "(Plain TStr, Field'\<lparr>max_length := Some 5\<rparr>)" lib0 Map.empty
        "VStr ''administrator''"] User_role_decl
  have s1: "setattr lib0 User Map.empty ''role'' (VStr ''administrator'')
       = Inr [''role'' \<mapsto> VStr ''administrator'']"
    by simp
  from others_do_not_validate_assignment
    [of Booking "''client_name''" "(Plain TStr, Field'\<lparr>max_length := Some 255\<rparr>)" lib0
        Map.empty "VStr (replicate 256 CHR ''a'')"] Booking_client_name_decl
  have s2: "setattr lib0 Booking Map.empty ''client_name'' (VStr (replicate 256 CHR ''a''))
       = Inr [''client_name'' \<mapsto> VStr (replicate 256 CHR ''a'')]"
    by simp
  from others_do_not_validate_assignment
    [of OrderItem "''item_name''" "(Plain TStr, Field'\<lparr>max_length := Some 255\<rparr>)" lib0
        Map.empty "VStr (replicate 256 CHR ''a'')"] OrderItem_item_name_decl
  have s3: "setattr lib0 OrderItem Map.empty ''item_name'' (VStr (replicate 256 CHR ''a''))
       = Inr [''item_name'' \<mapsto> VStr (replicate 256 CHR ''a'')]"
    by simp
  from v1 s1 v2 s2 v3 s3 show ?thesis by (intro conjI)
qed

subsection \<open>Classes whose constructor stores what it is given\<close>

lemma create_unvalidated:
  assumes "\<not> validate_assignment cls" and "distinct (map fst (model_fields cls))"
    and "map_of (model_fields cls) name = Some (ann, fi)"
  shows "\<exists>ob. create L cls en kw = Inr ob
           \<and> ob name = Some (case kw name of
                              Some v \<Rightarrow> v
                            | None \<Rightarrow> (case get_default en fi of Some dv \<Rightarrow> dv | None \<Rightarrow> VNone))"
proof -
  from create_raw [OF assms(1,2)] obtain ob
    where ob: "create L cls en kw = Inr ob"
      and all: "\<forall>f \<in> set (model_fields cls). ob (fst f) = Some (raw_value en kw f)"
    by blast
  from assms(3) have "(name, ann, fi) \<in> set (model_fields cls)" by (rule map_of_SomeD)
  with all have "ob name = Some (raw_value en kw (name, ann, fi))" by force
  with ob show ?thesis
    by (auto simp: raw_value_def init_value_def split: option.splits)
qed

subsection \<open>The quantity of an order item\<close>

lemma OrderItem_quantity_decl:
  "map_of (model_fields OrderItem) ''quantity'' =
     Some (Plain TInt, Field'\<lparr>fdefault := Default (VInt 1), ge := Some 1\<rparr>)"
  by (simp add: OrderItem_def OrderItem_fields_def)

lemma OrderItem_quantity_declared_bound:
  assumes "q \<le> 0"
  shows "validate_attr L OrderItem ''quantity'' (VInt q) = Inl (NumberNotGe 1)"
  using assms by (simp add: validate_attr_def OrderItem_quantity_decl to_int_def Field'_def)

lemma OrderItem_quantity_created:
  "\<exists>ob. create L OrderItem en kw = Inr ob
     \<and> ob ''quantity'' = Some (case kw ''quantity'' of None \<Rightarrow> VInt 1 | Some v \<Rightarrow> v)"
proof -
  from create_unvalidated [OF class_options(8) distinct_models(4) OrderItem_quantity_decl]
  obtain ob where "create L OrderItem en kw = Inr ob"
    and "ob ''quantity'' = Some (case kw ''quantity'' of
            Some v \<Rightarrow> v
          | None \<Rightarrow> (case get_default en (Field'\<lparr>fdefault := Default (VInt 1), ge := Some 1\<rparr>) of
                       Some dv \<Rightarrow> dv | None \<Rightarrow> VNone))"
    by blast
  then show ?thesis by (auto simp: get_default_def split: option.splits)
qed

text \<open>
  Claim C5. \<open>OrderItem.quantity\<close> is declared an integer with default \<open>1\<close> and lower
  bound \<open>1\<close>, and the check of the declaration rejects a quantity of \<open>0\<close> or less. The
  claim says that a construction with such a quantity is rejected. \<open>OrderItem\<close> is a
  table class without \<open>validate_assignment\<close>, so nothing runs that check: every
  construction succeeds and stores the quantity it is given (\<open>1\<close> when none is given),
  and an assignment stores any quantity.
\<close>

theorem OrderItem_quantity_unenforced:
  "map_of (model_fields OrderItem) ''quantity'' =
     Some (Plain TInt, Field'\<lparr>fdefault := Default (VInt 1), ge := Some 1\<rparr>)
   \<and> table OrderItem \<and> \<not> validate_assignment OrderItem
   \<and> (q \<le> 0 \<longrightarrow> validate_attr L OrderItem ''quantity'' (VInt q) = Inl (NumberNotGe 1))
   \<and> (\<exists>ob. create L OrderItem en kw = Inr ob
         \<and> ob ''quantity'' = Some (case kw ''quantity'' of None \<Rightarrow> VInt 1 | Some v \<Rightarrow> v))
   \<and> setattr L OrderItem ob0 ''quantity'' (VInt q) = Inr (ob0(''quantity'' \<mapsto> VInt q))"
proof (intro conjI impI)
  show "map_of (model_fields OrderItem) ''quantity'' =
     Some (Plain TInt, Field'\<lparr>fdefault := Default (VInt 1), ge := Some 1\<rparr>)"
    by (rule OrderItem_quantity_decl)
  show "table OrderItem" by (rule class_options)
  show "\<not> validate_assignment OrderItem" by (rule class_options)
next
  assume "q \<le> 0"
  then show "validate_attr L OrderItem ''quantity'' (VInt q) = Inl (NumberNotGe 1)"
    by (rule OrderItem_quantity_declared_bound)
next
  show "\<exists>ob. create L OrderItem en kw = Inr ob
         \<and> ob ''quantity'' = Some (case kw ''quantity'' of None \<Rightarrow> VInt 1 | Some v \<Rightarrow> v)"
    by (rule OrderItem_quantity_created)
  show "setattr L OrderItem ob0 ''quantity'' (VInt q) = Inr (ob0(''quantity'' \<mapsto> VInt q))"
    using class_options(8) OrderItem_quantity_decl by (rule setattr_unvalidated)
qed

theorem OrderItem_quantity_unenforced_witness:
  "(0::int) \<le> 0
   \<and> validate_attr lib0 OrderItem ''quantity'' (VInt 0) = Inl (NumberNotGe 1)
   \<and> (\<exists>ob. create lib0 OrderItem env0 (item_kw(''quantity'' \<mapsto> VInt 0)) = Inr ob
         \<and> ob ''quantity'' = Some (VInt 0))
   \<and> (\<exists>ob. create lib0 OrderItem env0 item_kw = Inr ob \<and> ob ''quantity'' = Some (VInt 1))"
proof -
  note r = OrderItem_quantity_unenforced [of 0 lib0 env0 "item_kw(''quantity'' \<mapsto> VInt 0)"]
  note r' = OrderItem_quantity_unenforced [of 0 lib0 env0 item_kw]
  from r have a: "validate_attr lib0 OrderItem ''quantity'' (VInt 0) = Inl (NumberNotGe 1)"
    by simp
  from r have b: "\<exists>ob. create lib0 OrderItem env0 (item_kw(''quantity'' \<mapsto> VInt 0)) = Inr ob
         \<and> ob ''quantity'' = Some (VInt 0)"
    by simp
  have n: "item_kw ''quantity'' = None" by (simp add: item_kw_def)
  from r' n have c: "\<exists>ob. create lib0 OrderItem env0 item_kw = Inr ob
         \<and> ob ''quantity'' = Some (VInt 1)"
    by simp
  from a b c show ?thesis by simp
qed

subsection \<open>Lower bounds of numeric fields\<close>

lemma ge_only_quantity:
  "\<forall>cls \<in> set all_models. \<forall>f \<in> set (model_fields cls).
     (ge (snd (snd f)) \<noteq> None) = (tablename cls = ''orderitem'' \<and> fst f = ''quantity'')"
  by (simp add: all_models_def User_def User_fields_def Booking_def Booking_fields_def Order_def
      Order_fields_def OrderItem_def OrderItem_fields_def Field'_def)

lemma numeric_fields_User: "numeric_fields User = []"
  by (simp add: numeric_fields_def is_numeric_def User_def User_fields_def)

lemma numeric_fields_Booking: "numeric_fields Booking = [''estimated_price'', ''final_price'']"
  by (simp add: numeric_fields_def is_numeric_def Booking_def Booking_fields_def)

lemma numeric_fields_Order:
  "numeric_fields Order =
     [''subtotal'', ''tax_amount'', ''service_fee'', ''discount_amount'', ''tip_amount'',
      ''total_amount'']"
  by (simp add: numeric_fields_def is_numeric_def Order_def Order_fields_def)

lemma numeric_fields_OrderItem:
  "numeric_fields OrderItem = [''quantity'', ''unit_price'', ''total_price'']"
  by (simp add: numeric_fields_def is_numeric_def OrderItem_def OrderItem_fields_def)

lemma Order_decimal_decl:
  "n \<in> set (numeric_fields Order) \<Longrightarrow>
   \<exists>fi. map_of (model_fields Order) n = Some (Plain TDecimal, fi)
     \<and> max_digits fi = Some 10 \<and> decimal_places fi = Some 2"
  unfolding numeric_fields_Order
  by (simp only: set_simps, elim insertE emptyE; simp add: Order_def Order_fields_def Field'_def)

lemma OrderItem_decimal_decl:
  "n \<in> {''unit_price'', ''total_price''} \<Longrightarrow>
   \<exists>fi. map_of (model_fields OrderItem) n = Some (Plain TDecimal, fi)
     \<and> max_digits fi = Some 10 \<and> decimal_places fi = Some 2"
  by (elim insertE emptyE; simp add: OrderItem_def OrderItem_fields_def Field'_def)

lemma Booking_float_decl:
  "n \<in> set (numeric_fields Booking) \<Longrightarrow>
   map_of (model_fields Booking) n = Some (Optional TFloat, Field'\<lparr>fdefault := Default VNone\<rparr>)"
  unfolding numeric_fields_Booking
  by (simp only: set_simps, elim insertE emptyE; simp add: Booking_def Booking_fields_def)

lemma Order_accepts_negative:
  assumes "n \<in> set (numeric_fields Order)"
  shows "validate_attr L Order n (VDecimal (Decimal True 100 (- 2)))
           = Inr (VDecimal (Decimal True 100 (- 2)))"
    and "isl (validate_attr L Order n (VDecimal (Decimal True c e)))
           = isl (validate_attr L Order n (VDecimal (Decimal False c e)))"
proof -
  from Order_decimal_decl [OF assms] obtain fi
    where m: "map_of (model_fields Order) n = Some (Plain TDecimal, fi)"
      and c: "max_digits fi = Some 10" "decimal_places fi = Some 2"
    by blast
  from m show "validate_attr L Order n (VDecimal (Decimal True 100 (- 2)))
           = Inr (VDecimal (Decimal True 100 (- 2)))"
    by (simp add: validate_attr_def minus_one_accepted [OF c] del: validate_field.simps)
  from m show "isl (validate_attr L Order n (VDecimal (Decimal True c e)))
           = isl (validate_attr L Order n (VDecimal (Decimal False c e)))"
    by (simp add: validate_attr_def validate_decimal_sign del: validate_field.simps)
qed

lemma OrderItem_accepts_negative:
  assumes "n \<in> {''unit_price'', ''total_price''}"
  shows "validate_attr L OrderItem n (VDecimal (Decimal True 100 (- 2)))
           = Inr (VDecimal (Decimal True 100 (- 2)))"
    and "isl (validate_attr L OrderItem n (VDecimal (Decimal True c e)))
           = isl (validate_attr L OrderItem n (VDecimal (Decimal False c e)))"
proof -
  from OrderItem_decimal_decl [OF assms] obtain fi
    where m: "map_of (model_fields OrderItem) n = Some (Plain TDecimal, fi)"
      and c: "max_digits fi = Some 10" "decimal_places fi = Some 2"
    by blast
  from m show "validate_attr L OrderItem n (VDecimal (Decimal True 100 (- 2)))
           = Inr (VDecimal (Decimal True 100 (- 2)))"
    by (simp add: validate_attr_def minus_one_accepted [OF c] del: validate_field.simps)
  from m show "isl (validate_attr L OrderItem n (VDecimal (Decimal True c e)))
           = isl (validate_attr L OrderItem n (VDecimal (Decimal False c e)))"
    by (simp add: validate_attr_def validate_decimal_sign del: validate_field.simps)
qed

lemma Booking_accepts_float:
  assumes "n \<in> set (numeric_fields Booking)"
  shows "validate_attr L Booking n (VFloat x) = Inr (VFloat x)"
  using Booking_float_decl [OF assms] by (simp add: validate_attr_def to_float_def)

text \<open>
  Claim C10. The only field of the schema that declares a lower bound is
  \<open>OrderItem.quantity\<close>. The other numeric fields are the six amounts of \<open>Order\<close>, the
  two prices of \<open>OrderItem\<close> and the two prices of \<open>Booking\<close> (\<open>User\<close> has no numeric
  field), and each of them accepts negative values: the decimal \<open>-1.00\<close> is accepted by
  the eight decimal fields, which accept a negative decimal exactly when they accept its
  absolute value, and the two prices of \<open>Booking\<close> accept every floating-point number,
  \<open>-1.0\<close> among them. Acceptance is that of the check which the declaration of the field
  puts on a value.
\<close>

theorem quantity_only_lower_bound:
  "(\<forall>cls \<in> set all_models. \<forall>f \<in> set (model_fields cls).
      (ge (snd (snd f)) \<noteq> None) = (tablename cls = ''orderitem'' \<and> fst f = ''quantity''))
   \<and> numeric_fields User = []
   \<and> numeric_fields Booking = [''estimated_price'', ''final_price'']
   \<and> numeric_fields Order =
       [''subtotal'', ''tax_amount'', ''service_fee'', ''discount_amount'', ''tip_amount'',
        ''total_amount'']
   \<and> numeric_fields OrderItem = [''quantity'', ''unit_price'', ''total_price'']
   \<and> dec_value (Decimal True 100 (- 2)) = Some (- 1)
   \<and> float_value (Float (- 1) 0) = Some (- 1)
   \<and> (\<forall>n \<in> set (numeric_fields Order).
        validate_attr L Order n (VDecimal (Decimal True 100 (- 2)))
          = Inr (VDecimal (Decimal True 100 (- 2)))
        \<and> (\<forall>c e. isl (validate_attr L Order n (VDecimal (Decimal True c e)))
                  = isl (validate_attr L Order n (VDecimal (Decimal False c e)))))
   \<and> (\<forall>n \<in> {''unit_price'', ''total_price''}.
        validate_attr L OrderItem n (VDecimal (Decimal True 100 (- 2)))
          = Inr (VDecimal (Decimal True 100 (- 2)))
        \<and> (\<forall>c e. isl (validate_attr L OrderItem n (VDecimal (Decimal True c e)))
                  = isl (validate_attr L OrderItem n (VDecimal (Decimal False c e)))))
   \<and> (\<forall>n \<in> set (numeric_fields Booking). \<forall>x.
        validate_attr L Booking n (VFloat x) = Inr (VFloat x))"
proof (intro conjI)
  show "\<forall>cls \<in> set all_models. \<forall>f \<in> set (model_fields cls).
      (ge (snd (snd f)) \<noteq> None) = (tablename cls = ''orderitem'' \<and> fst f = ''quantity'')"
    by (rule ge_only_quantity)
  show "numeric_fields User = []" by (rule numeric_fields_User)
  show "numeric_fields Booking = [''estimated_price'', ''final_price'']"
    by (rule numeric_fields_Booking)
  show "numeric_fields Order =
       [''subtotal'', ''tax_amount'', ''service_fee'', ''discount_amount'', ''tip_amount'',
        ''total_amount'']"
    by (rule numeric_fields_Order)
  show "numeric_fields OrderItem = [''quantity'', ''unit_price'', ''total_price'']"
    by (rule numeric_fields_OrderItem)
  show "dec_value (Decimal True 100 (- 2)) = Some (- 1)" by simp
  show "float_value (Float (- 1) 0) = Some (- 1)" by simp
  show "\<forall>n \<in> set (numeric_fields Order).
        validate_attr L Order n (VDecimal (Decimal True 100 (- 2)))
          = Inr (VDecimal (Decimal True 100 (- 2)))
        \<and> (\<forall>c e. isl (validate_attr L Order n (VDecimal (Decimal True c e)))
                  = isl (validate_attr L Order n (VDecimal (Decimal False c e))))"
    by (intro ballI conjI allI; (rule Order_accepts_negative, assumption))
  show "\<forall>n \<in> {''unit_price'', ''total_price''}.
        validate_attr L OrderItem n (VDecimal (Decimal True 100 (- 2)))
          = Inr (VDecimal (Decimal True 100 (- 2)))
        \<and> (\<forall>c e. isl (validate_attr L OrderItem n (VDecimal (Decimal True c e)))
                  = isl (validate_attr L OrderItem n (VDecimal (Decimal False c e))))"
    by (intro ballI conjI allI; (rule OrderItem_accepts_negative, assumption))
  show "\<forall>n \<in> set (numeric_fields Booking). \<forall>x.
        validate_attr L Booking n (VFloat x) = Inr (VFloat x)"
    by (intro ballI allI; (rule Booking_accepts_float, assumption))
qed

theorem quantity_only_lower_bound_witness:
  "ge (Field'\<lparr>fdefault := Default (VInt 1), ge := Some 1\<rparr>) = Some 1
   \<and> ge (Field'\<lparr>max_digits := Some 10, decimal_places := Some 2\<rparr>) = None
   \<and> validate_attr lib0 Order ''subtotal'' (VDecimal (Decimal True 100 (- 2)))
       = Inr (VDecimal (Decimal True 100 (- 2)))
   \<and> validate_attr lib0 Order ''discount_amount'' (VDecimal (Decimal True 100 (- 2)))
       = Inr (VDecimal (Decimal True 100 (- 2)))
   \<and> validate_attr lib0 OrderItem ''unit_price'' (VDecimal (Decimal True 100 (- 2)))
       = Inr (VDecimal (Decimal True 100 (- 2)))
   \<and> validate_attr lib0 Booking ''final_price'' (VFloat (Float (- 1) 0)) = Inr (VFloat (Float (- 1) 0))
   \<and> validate_attr lib0 OrderItem ''quantity'' (VInt (- 1)) = Inl (NumberNotGe 1)"
proof -
  note r = quantity_only_lower_bound [of lib0]
  have m1: "''subtotal'' \<in> set (numeric_fields Order)"
    and m2: "''discount_amount'' \<in> set (numeric_fields Order)"
    by (simp_all add: numeric_fields_Order)
  have m3: "''unit_price'' \<in> {''unit_price'', ''total_price''}" by simp
  have m4: "''final_price'' \<in> set (numeric_fields Booking)" by (simp add: numeric_fields_Booking)
  note r8 = r [THEN conjunct2, THEN conjunct2, THEN conjunct2, THEN conjunct2, THEN conjunct2,
    THEN conjunct2, THEN conjunct2, THEN conjunct1]
  note r9 = r [THEN conjunct2, THEN conjunct2, THEN conjunct2, THEN conjunct2, THEN conjunct2,
    THEN conjunct2, THEN conjunct2, THEN conjunct2, THEN conjunct1]
  note r10 = r [THEN conjunct2, THEN conjunct2, THEN conjunct2, THEN conjunct2, THEN conjunct2,
    THEN conjunct2, THEN conjunct2, THEN conjunct2, THEN conjunct2]
  from bspec [OF r8 m1]
  have a1: "validate_attr lib0 Order ''subtotal'' (VDecimal (Decimal True 100 (- 2)))
       = Inr (VDecimal (Decimal True 100 (- 2)))" by (rule conjunct1)
  from bspec [OF r8 m2]
  have a2: "validate_attr lib0 Order ''discount_amount'' (VDecimal (Decimal True 100 (- 2)))
       = Inr (VDecimal (Decimal True 100 (- 2)))" by (rule conjunct1)
  from bspec [OF r9 m3]
  have a3: "validate_attr lib0 OrderItem ''unit_price'' (VDecimal (Decimal True 100 (- 2)))
       = Inr (VDecimal (Decimal True 100 (- 2)))" by (rule conjunct1)
  from bspec [OF r10 m4]
  have a4: "validate_attr lib0 Booking ''final_price'' (VFloat (Float (- 1) 0))
       = Inr (VFloat (Float (- 1) 0))" by (rule spec)
  have a5: "validate_attr lib0 OrderItem ''quantity'' (VInt (- 1)) = Inl (NumberNotGe 1)"
    by (simp add: validate_attr_def OrderItem_quantity_decl to_int_def Field'_def)
  have g1: "ge (Field'\<lparr>fdefault := Default (VInt 1), ge := Some 1\<rparr>) = Some 1" by simp
  have g2: "ge (Field'\<lparr>max_digits := Some 10, decimal_places := Some 2\<rparr>) = None"
    by (simp add: Field'_def)
  from g1 g2 a1 a2 a3 a4 a5 show ?thesis by (intro conjI)
qed

subsection \<open>Precision of monetary fields\<close>

lemma Booking_estimated_price_decl:
  "map_of (model_fields Booking) ''estimated_price'' =
     Some (Optional TFloat, Field'\<lparr>fdefault := Default VNone\<rparr>)"
  by (simp add: Booking_def Booking_fields_def)

lemma Booking_final_price_decl:
  "map_of (model_fields Booking) ''final_price'' =
     Some (Optional TFloat, Field'\<lparr>fdefault := Default VNone\<rparr>)"
  by (simp add: Booking_def Booking_fields_def)

lemma Booking_price_created:
  "\<exists>ob. create L Booking en (kw(''estimated_price'' \<mapsto> x)) = Inr ob
     \<and> ob ''estimated_price'' = Some x"
  using create_unvalidated [OF class_options(6) distinct_models(2) Booking_estimated_price_decl,
      of L en "kw(''estimated_price'' \<mapsto> x)"]
  by simp

lemma booking_price_stored:
  "\<exists>ob. create L Booking env0 booking_price_kw = Inr ob
     \<and> ob ''estimated_price'' = Some (VFloat float_0_1)"
  unfolding booking_price_kw_def by (rule Booking_price_created)

lemma float_0_1_value:
  "float_value float_0_1 = Some (3602879701896397 / 36028797018963968)"
  by (simp add: float_0_1_def)

lemma dec_0_1_value: "dec_value (Decimal False 10 (- 2)) = Some (1 / 10)"
  by simp

text \<open>
  Claim C1. The claim asks for an exact decimal representation of \<open>estimated_price\<close> and
  \<open>final_price\<close> of \<open>Booking\<close>. The source declares both \<open>Optional[float]\<close>: every
  binary floating-point number is accepted and stored as it is, no such number is the
  decimal \<open>0.10\<close>, and a booking created with the price \<open>0.1\<close> stores
  \<open>3602879701896397 / 2 ^ 55\<close>.
\<close>

theorem Booking_prices_are_binary_floats:
  "map_of (model_fields Booking) ''estimated_price'' =
     Some (Optional TFloat, Field'\<lparr>fdefault := Default VNone\<rparr>)
   \<and> map_of (model_fields Booking) ''final_price'' =
       Some (Optional TFloat, Field'\<lparr>fdefault := Default VNone\<rparr>)
   \<and> validate_attr L Booking ''estimated_price'' (VFloat x) = Inr (VFloat x)
   \<and> validate_attr L Booking ''final_price'' (VFloat x) = Inr (VFloat x)
   \<and> (\<exists>ob. create L Booking env0 booking_price_kw = Inr ob
          \<and> ob ''estimated_price'' = Some (VFloat float_0_1))
   \<and> float_value float_0_1 = Some (3602879701896397 / 36028797018963968)
   \<and> float_value (Float m e) \<noteq> Some (1 / 10)
   \<and> dec_value (Decimal False 10 (- 2)) = Some (1 / 10)"
proof (intro conjI)
  show "map_of (model_fields Booking) ''estimated_price'' =
     Some (Optional TFloat, Field'\<lparr>fdefault := Default VNone\<rparr>)"
    by (rule Booking_estimated_price_decl)
  show "map_of (model_fields Booking) ''final_price'' =
       Some (Optional TFloat, Field'\<lparr>fdefault := Default VNone\<rparr>)"
    by (rule Booking_final_price_decl)
  show "validate_attr L Booking ''estimated_price'' (VFloat x) = Inr (VFloat x)"
    by (simp add: validate_attr_def Booking_estimated_price_decl to_float_def)
  show "validate_attr L Booking ''final_price'' (VFloat x) = Inr (VFloat x)"
    by (simp add: validate_attr_def Booking_final_price_decl to_float_def)
  show "\<exists>ob. create L Booking env0 booking_price_kw = Inr ob
          \<and> ob ''estimated_price'' = Some (VFloat float_0_1)"
    by (rule booking_price_stored)
  show "float_value float_0_1 = Some (3602879701896397 / 36028797018963968)"
    by (rule float_0_1_value)
  show "float_value (Float m e) \<noteq> Some (1 / 10)" by (rule no_float_is_a_tenth)
  show "dec_value (Decimal False 10 (- 2)) = Some (1 / 10)" by (rule dec_0_1_value)
qed

theorem Booking_prices_are_binary_floats_witness:
  "validate_attr lib0 Booking ''estimated_price'' (VFloat float_0_1) = Inr (VFloat float_0_1)
   \<and> (\<exists>ob. create lib0 Booking env0 booking_price_kw = Inr ob
          \<and> ob ''estimated_price'' = Some (VFloat float_0_1))
   \<and> float_value float_0_1 \<noteq> Some (1 / 10)"
proof -
  note r = Booking_prices_are_binary_floats [of lib0 float_0_1 3602879701896397 "- 55"]
  from r have a: "validate_attr lib0 Booking ''estimated_price'' (VFloat float_0_1)
                    = Inr (VFloat float_0_1)"
    by simp
  from r have c: "\<exists>ob. create lib0 Booking env0 booking_price_kw = Inr ob
          \<and> ob ''estimated_price'' = Some (VFloat float_0_1)"
    by simp
  note r7 = r [THEN conjunct2, THEN conjunct2, THEN conjunct2, THEN conjunct2, THEN conjunct2,
    THEN conjunct2, THEN conjunct1]
  from r7 have b: "float_value float_0_1 \<noteq> Some (1 / 10)"
    unfolding float_0_1_def .
  from a c b show ?thesis by (intro conjI)
qed

lemma Order_decimal_rejects:
  assumes "n \<in> set (numeric_fields Order)" and "dec_value d = Some v"
    and "ndigits (dec_coeff d) \<le> prec" and "v * 100 \<notin> \<int> \<or> 10 ^ 8 \<le> \<bar>v\<bar>"
  shows "isl (validate_attr L Order n (VDecimal d))"
    and "isl (create L Order en (kw(n \<mapsto> VDecimal d)))"
    and "isl (setattr L Order ob n (VDecimal d))"
proof -
  from Order_decimal_decl [OF assms(1)] obtain fi
    where m: "map_of (model_fields Order) n = Some (Plain TDecimal, fi)"
      and c: "max_digits fi = Some 10" "decimal_places fi = Some 2"
    by blast
  from decimal_field_rejects [OF c assms(2,3,4)]
  have r: "isl (validate_field L (Plain TDecimal) fi (VDecimal d))" .
  with m show v: "isl (validate_attr L Order n (VDecimal d))"
    by (simp add: validate_attr_def del: validate_field.simps)
  from r obtain e where e: "validate_field L (Plain TDecimal) fi (VDecimal d) = Inl e"
    by (cases "validate_field L (Plain TDecimal) fi (VDecimal d)") simp_all
  have k: "(kw(n \<mapsto> VDecimal d)) n = Some (VDecimal d)" by simp
  from m k e show "isl (create L Order en (kw(n \<mapsto> VDecimal d)))"
    by (rule Order_rejects [where kw = "kw(n \<mapsto> VDecimal d)" and name = n])
  from v m show "isl (setattr L Order ob n (VDecimal d))"
    by (cases "validate_attr L Order n (VDecimal d)") (simp_all add: setattr_Order)
qed

lemma OrderItem_decimal_unenforced:
  assumes "n \<in> {''unit_price'', ''total_price''}"
  shows "dec_value d = Some v \<Longrightarrow> ndigits (dec_coeff d) \<le> prec
           \<Longrightarrow> v * 100 \<notin> \<int> \<or> 10 ^ 8 \<le> \<bar>v\<bar>
           \<Longrightarrow> isl (validate_attr L OrderItem n (VDecimal d))"
    and "\<exists>ob. create L OrderItem en (kw(n \<mapsto> x)) = Inr ob \<and> ob n = Some x"
    and "setattr L OrderItem ob0 n x = Inr (ob0(n \<mapsto> x))"
proof -
  from OrderItem_decimal_decl [OF assms] obtain fi
    where m: "map_of (model_fields OrderItem) n = Some (Plain TDecimal, fi)"
      and c: "max_digits fi = Some 10" "decimal_places fi = Some 2"
    by blast
  show "isl (validate_attr L OrderItem n (VDecimal d))"
    if "dec_value d = Some v" and "ndigits (dec_coeff d) \<le> prec"
      and "v * 100 \<notin> \<int> \<or> 10 ^ 8 \<le> \<bar>v\<bar>"
    using decimal_field_rejects [OF c that, of L] m
    by (simp add: validate_attr_def del: validate_field.simps)
  from create_unvalidated [OF class_options(8) distinct_models(4) m, of L en "kw(n \<mapsto> x)"]
  show "\<exists>ob. create L OrderItem en (kw(n \<mapsto> x)) = Inr ob \<and> ob n = Some x" by simp
  from class_options(8) m show "setattr L OrderItem ob0 n x = Inr (ob0(n \<mapsto> x))"
    by (rule setattr_unvalidated)
qed

lemma eighth_not_cents: "(1 / 8 :: rat) * 100 \<notin> \<int>"
  using odd_half_not_int [of 12] by simp

text \<open>
  Claim C4. The claim says that every monetary field of every record type rejects a
  value with more than two fractional digits or more than eight integer digits. The
  decimal fields of \<open>Order\<close> and of \<open>OrderItem\<close> all declare \<open>max_digits = 10\<close> and
  \<open>decimal_places = 2\<close>, and the check of that declaration rejects a decimal that is not
  a whole number of hundredths or whose magnitude is \<open>10 ^ 8\<close> or more (for a decimal
  within the precision of the arithmetic context). \<open>Order\<close> runs the check, at creation
  and on assignment. \<open>OrderItem\<close> runs it nowhere: a creation and an assignment store
  any price. The two prices of \<open>Booking\<close> declare no precision at all, and
  \<open>estimated_price\<close> takes \<open>0.125\<close>, which has three fractional digits, and
  \<open>final_price\<close> takes \<open>1234567890.0\<close>, which has ten integer digits.
\<close>

theorem monetary_precision:
  "(\<forall>n \<in> set (numeric_fields Order).
      \<exists>fi. map_of (model_fields Order) n = Some (Plain TDecimal, fi)
        \<and> max_digits fi = Some 10 \<and> decimal_places fi = Some 2)
   \<and> (\<forall>n \<in> {''unit_price'', ''total_price''}.
      \<exists>fi. map_of (model_fields OrderItem) n = Some (Plain TDecimal, fi)
        \<and> max_digits fi = Some 10 \<and> decimal_places fi = Some 2)
   \<and> (n \<in> set (numeric_fields Order) \<and> dec_value d = Some v \<and> ndigits (dec_coeff d) \<le> prec
        \<and> (v * 100 \<notin> \<int> \<or> 10 ^ 8 \<le> \<bar>v\<bar>)
      \<longrightarrow> isl (validate_attr L Order n (VDecimal d))
          \<and> isl (create L Order en (kw(n \<mapsto> VDecimal d)))
          \<and> isl (setattr L Order ob n (VDecimal d)))
   \<and> (n' \<in> {''unit_price'', ''total_price''} \<and> dec_value d' = Some v'
        \<and> ndigits (dec_coeff d') \<le> prec \<and> (v' * 100 \<notin> \<int> \<or> 10 ^ 8 \<le> \<bar>v'\<bar>)
      \<longrightarrow> isl (validate_attr L OrderItem n' (VDecimal d')))
   \<and> (n' \<in> {''unit_price'', ''total_price''}
      \<longrightarrow> (\<exists>ob. create L OrderItem en' (kw'(n' \<mapsto> x)) = Inr ob \<and> ob n' = Some x)
          \<and> setattr L OrderItem ob' n' x = Inr (ob'(n' \<mapsto> x)))
   \<and> validate_attr L Booking ''estimated_price'' (VFloat (Float 1 (- 3)))
       = Inr (VFloat (Float 1 (- 3)))
   \<and> (\<exists>ob. create L Booking en'' (kw''(''estimated_price'' \<mapsto> VFloat (Float 1 (- 3)))) = Inr ob
          \<and> ob ''estimated_price'' = Some (VFloat (Float 1 (- 3))))
   \<and> float_value (Float 1 (- 3)) = Some (1 / 8) \<and> (1 / 8 :: rat) * 100 \<notin> \<int>
   \<and> validate_attr L Booking ''final_price'' (VFloat (Float 1234567890 0))
       = Inr (VFloat (Float 1234567890 0))
   \<and> float_value (Float 1234567890 0) = Some 1234567890
   \<and> (10::rat) ^ 8 \<le> \<bar>1234567890\<bar>"
proof (intro conjI impI ballI)
  fix m assume "m \<in> set (numeric_fields Order)"
  then show "\<exists>fi. map_of (model_fields Order) m = Some (Plain TDecimal, fi)
        \<and> max_digits fi = Some 10 \<and> decimal_places fi = Some 2"
    by (rule Order_decimal_decl)
next
  fix m assume "m \<in> {''unit_price'', ''total_price''}"
  then show "\<exists>fi. map_of (model_fields OrderItem) m = Some (Plain TDecimal, fi)
        \<and> max_digits fi = Some 10 \<and> decimal_places fi = Some 2"
    by (rule OrderItem_decimal_decl)
next
  assume a: "n \<in> set (numeric_fields Order) \<and> dec_value d = Some v
        \<and> ndigits (dec_coeff d) \<le> prec \<and> (v * 100 \<notin> \<int> \<or> 10 ^ 8 \<le> \<bar>v\<bar>)"
  then have a1: "n \<in> set (numeric_fields Order)" and a2: "dec_value d = Some v"
    and a3: "ndigits (dec_coeff d) \<le> prec" and a4: "v * 100 \<notin> \<int> \<or> 10 ^ 8 \<le> \<bar>v\<bar>"
    by simp_all
  from a1 a2 a3 a4 show "isl (validate_attr L Order n (VDecimal d))"
    by (rule Order_decimal_rejects(1))
  from a1 a2 a3 a4 show "isl (create L Order en (kw(n \<mapsto> VDecimal d)))"
    by (rule Order_decimal_rejects(2))
  from a1 a2 a3 a4 show "isl (setattr L Order ob n (VDecimal d))"
    by (rule Order_decimal_rejects(3))
next
  assume a: "n' \<in> {''unit_price'', ''total_price''} \<and> dec_value d' = Some v'
        \<and> ndigits (dec_coeff d') \<le> prec \<and> (v' * 100 \<notin> \<int> \<or> 10 ^ 8 \<le> \<bar>v'\<bar>)"
  then have a1: "n' \<in> {''unit_price'', ''total_price''}" and a2: "dec_value d' = Some v'"
    and a3: "ndigits (dec_coeff d') \<le> prec" and a4: "v' * 100 \<notin> \<int> \<or> 10 ^ 8 \<le> \<bar>v'\<bar>"
    by simp_all
  from a1 a2 a3 a4 show "isl (validate_attr L OrderItem n' (VDecimal d'))"
    by (rule OrderItem_decimal_unenforced(1))
next
  assume a: "n' \<in> {''unit_price'', ''total_price''}"
  then show "\<exists>ob. create L OrderItem en' (kw'(n' \<mapsto> x)) = Inr ob \<and> ob n' = Some x"
    by (rule OrderItem_decimal_unenforced(2))
  from a show "setattr L OrderItem ob' n' x = Inr (ob'(n' \<mapsto> x))"
    by (rule OrderItem_decimal_unenforced(3))
next
  show "validate_attr L Booking ''estimated_price'' (VFloat (Float 1 (- 3)))
       = Inr (VFloat (Float 1 (- 3)))"
    by (simp add: validate_attr_def Booking_estimated_price_decl to_float_def)
  show "\<exists>ob. create L Booking en'' (kw''(''estimated_price'' \<mapsto> VFloat (Float 1 (- 3)))) = Inr ob
          \<and> ob ''estimated_price'' = Some (VFloat (Float 1 (- 3)))"
    by (rule Booking_price_created)
  show "float_value (Float 1 (- 3)) = Some (1 / 8)" by simp
  show "(1 / 8 :: rat) * 100 \<notin> \<int>" by (rule eighth_not_cents)
  show "validate_attr L Booking ''final_price'' (VFloat (Float 1234567890 0))
       = Inr (VFloat (Float 1234567890 0))"
    by (simp add: validate_attr_def Booking_final_price_decl to_float_def)
  show "float_value (Float 1234567890 0) = Some 1234567890" by simp
  show "(10::rat) ^ 8 \<le> \<bar>1234567890\<bar>" by simp
qed

theorem monetary_precision_witness:
  "''subtotal'' \<in> set (numeric_fields Order)
   \<and> dec_value (Decimal False 12345 (- 3)) = Some (2469 / 200)
   \<and> ndigits (dec_coeff (Decimal False 12345 (- 3))) \<le> prec
   \<and> (2469 / 200 :: rat) * 100 \<notin> \<int>
   \<and> isl (validate_attr lib0 Order ''subtotal'' (VDecimal (Decimal False 12345 (- 3))))
   \<and> isl (create lib0 Order env0 (order_kw(''subtotal'' \<mapsto> VDecimal (Decimal False 12345 (- 3)))))
   \<and> ''total_price'' \<in> {''unit_price'', ''total_price''}
   \<and> dec_value (Decimal True 123456789 0) = Some (- 123456789)
   \<and> ndigits (dec_coeff (Decimal True 123456789 0)) \<le> prec
   \<and> (10::rat) ^ 8 \<le> \<bar>- 123456789\<bar>
   \<and> isl (validate_attr lib0 OrderItem ''total_price'' (VDecimal (Decimal True 123456789 0)))
   \<and> (\<exists>ob. create lib0 OrderItem env0
              (item_kw(''total_price'' \<mapsto> VDecimal (Decimal True 123456789 0))) = Inr ob
          \<and> ob ''total_price'' = Some (VDecimal (Decimal True 123456789 0)))
   \<and> (\<exists>ob. create lib0 Booking env0
              (booking_kw(''estimated_price'' \<mapsto> VFloat (Float 1 (- 3)))) = Inr ob
          \<and> ob ''estimated_price'' = Some (VFloat (Float 1 (- 3))))"
proof -
  have h1: "''subtotal'' \<in> set (numeric_fields Order)" by (simp add: numeric_fields_Order)
  have h2: "dec_value (Decimal False 12345 (- 3)) = Some (2469 / 200)" by simp
  have h2': "ndigits (dec_coeff (Decimal False 12345 (- 3))) \<le> prec"
    by (simp add: ndigits.simps prec_def)
  have h3: "(2469 / 200 :: rat) * 100 \<notin> \<int>" using odd_half_not_int [of 1234] by simp
  have h4: "''total_price'' \<in> {''unit_price'', ''total_price''}" by simp
  have h5: "dec_value (Decimal True 123456789 0) = Some (- 123456789)" by simp
  have h5': "ndigits (dec_coeff (Decimal True 123456789 0)) \<le> prec"
    by (simp add: ndigits.simps prec_def)
  have h6: "(10::rat) ^ 8 \<le> \<bar>- 123456789\<bar>" by simp
  note r = monetary_precision
    [of "''subtotal''" "Decimal False 12345 (- 3)" "2469 / 200" lib0 env0 order_kw Map.empty
        "''total_price''" "Decimal True 123456789 0" "- 123456789" env0 item_kw
        "VDecimal (Decimal True 123456789 0)" Map.empty env0 booking_kw]
  note r3 = r [THEN conjunct2, THEN conjunct2, THEN conjunct1]
  note r4 = r [THEN conjunct2, THEN conjunct2, THEN conjunct2, THEN conjunct1]
  note r5 = r [THEN conjunct2, THEN conjunct2, THEN conjunct2, THEN conjunct2, THEN conjunct1]
  note r7 = r [THEN conjunct2, THEN conjunct2, THEN conjunct2, THEN conjunct2, THEN conjunct2,
    THEN conjunct2, THEN conjunct1]
  from h1 h2 h2' h3
  have p3: "''subtotal'' \<in> set (numeric_fields Order)
        \<and> dec_value (Decimal False 12345 (- 3)) = Some (2469 / 200)
        \<and> ndigits (dec_coeff (Decimal False 12345 (- 3))) \<le> prec
        \<and> ((2469 / 200 :: rat) * 100 \<notin> \<int> \<or> 10 ^ 8 \<le> \<bar>2469 / 200 :: rat\<bar>)"
    by (intro conjI disjI1)
  from mp [OF r3 p3]
  have c1: "isl (validate_attr lib0 Order ''subtotal'' (VDecimal (Decimal False 12345 (- 3))))"
    and c2: "isl (create lib0 Order env0
                   (order_kw(''subtotal'' \<mapsto> VDecimal (Decimal False 12345 (- 3)))))"
    by simp_all
  from h4 h5 h5' h6
  have p4: "''total_price'' \<in> {''unit_price'', ''total_price''}
        \<and> dec_value (Decimal True 123456789 0) = Some (- 123456789)
        \<and> ndigits (dec_coeff (Decimal True 123456789 0)) \<le> prec
        \<and> ((- 123456789 :: rat) * 100 \<notin> \<int> \<or> 10 ^ 8 \<le> \<bar>- 123456789 :: rat\<bar>)"
    by (intro conjI disjI2)
  from mp [OF r4 p4]
  have c3: "isl (validate_attr lib0 OrderItem ''total_price''
                   (VDecimal (Decimal True 123456789 0)))" .
  from mp [OF r5 h4]
  have c4: "\<exists>ob. create lib0 OrderItem env0
              (item_kw(''total_price'' \<mapsto> VDecimal (Decimal True 123456789 0))) = Inr ob
          \<and> ob ''total_price'' = Some (VDecimal (Decimal True 123456789 0))"
    by (rule conjunct1)
  from r7
  have c5: "\<exists>ob. create lib0 Booking env0
              (booking_kw(''estimated_price'' \<mapsto> VFloat (Float 1 (- 3)))) = Inr ob
          \<and> ob ''estimated_price'' = Some (VFloat (Float 1 (- 3)))" .
  from h1 h2 h2' h3 c1 c2 h4 h5 h5' h6 c3 c4 c5 show ?thesis by (intro conjI)
qed

end
